theory Spec2Isabelle
  imports Main "HOL-Library.AList" "HOL-Library.Char_ord" "HOL-Library.List_Lexorder"
    "HOL-Library.Sublist"
begin

section \<open>The live-update reconciler of Tilt\<close>

text \<open>
  A shallow embedding of \<^verbatim>\<open>internal/controllers/core/liveupdate/reconciler.go\<close>.
  Every Go function of that file that the properties below talk about is a HOL
  function of the same name; the closures and loop bodies of \<^verbatim>\<open>maybeSync\<close>,
  \<^verbatim>\<open>reconcileOneSource\<close> and \<^verbatim>\<open>garbageCollectFileChanges\<close> are functions of their own.
  Conventions:
  \<^item> \<^verbatim>\<open>metav1.MicroTime\<close> and \<^verbatim>\<open>time.Time\<close> are natural numbers (microseconds); the
    zero value of the Go types is \<open>0\<close>, so \<^verbatim>\<open>t.IsZero()\<close> is \<open>t = 0\<close>, \<^verbatim>\<open>a.After(b)\<close> is
    \<open>b < a\<close> and \<^verbatim>\<open>a.Before(b)\<close> is \<open>a < b\<close>;
  \<^item> \<^verbatim>\<open>apis.NowMicro()\<close> reads the field \<open>nowMicro\<close> of the world, one clock value for
    the whole reconcile;
  \<^item> a nil-able pointer is an \<open>option\<close>; a Go map is an association list with
    \<open>map_of\<close>, \<open>AList.update\<close> and \<open>filter\<close> (reading a missing key gives the zero
    value, written out where the code relies on it). What the code computes by ranging
    over a map (a minimum, a maximum, a sorted list without duplicates, a deletion by
    a test on each entry) does not depend on the order of the range;
  \<^item> \<^verbatim>\<open>apicmp.DeepEqual\<close> is equality; a nil slice and an empty slice are both \<open>[]\<close>;
  \<^item> the API server, the store, the container updater and the packages whose code is
    not part of \<^verbatim>\<open>reconciler.go\<close> are fields of the record \<open>world\<close>;
  \<^item> every \<^verbatim>\<open>store.Dispatch\<close>, every call of the container updater and every status
    write is appended to a list of \<open>effect\<close>s, in program order. Log lines, the
    indexer and the log handler of the context are not recorded; the mutex is not
    modelled, one reconcile runs at a time.
\<close>

subsection \<open>API objects\<close>

type_synonym microTime = nat

record liveUpdateStateFailed =
  f_Reason :: string
  f_Message :: string
  f_LastTransitionTime :: microTime

record liveUpdateContainerStateWaiting =
  w_Reason :: string
  w_Message :: string

record liveUpdateContainerStatus =
  cs_ContainerName :: string
  cs_ContainerID :: string
  cs_PodName :: string
  cs_Namespace :: string
  cs_LastFileTimeSynced :: microTime
  cs_LastExecError :: string
  cs_Waiting :: "liveUpdateContainerStateWaiting option"

record liveUpdateStatus =
  st_Failed :: "liveUpdateStateFailed option"
  st_Containers :: "liveUpdateContainerStatus list"

record liveUpdateKubernetesSelector =
  DiscoveryName :: string
  ApplyName :: string
  ImageMapName :: string

record liveUpdateDockerComposeSelector =
  Service :: string

record liveUpdateSelector =
  Kubernetes :: "liveUpdateKubernetesSelector option"
  DockerCompose :: "liveUpdateDockerComposeSelector option"

record liveUpdateSource =
  FileWatch :: string
  ImageMap :: string

type_synonym pathMapping = "string \<times> string"

record liveUpdateSpec =
  Selector :: liveUpdateSelector
  Sources :: "liveUpdateSource list"
  BasePath :: string
  Syncs :: "pathMapping list"
  Execs :: "(string list \<times> string list) list"
  StopPaths :: "string list"
  Restart :: bool

record liveUpdate =
  Name :: string
  Annotations :: "(string \<times> string) list"
  DeletionTimestamp :: "microTime option"
  Spec :: liveUpdateSpec
  Status :: liveUpdateStatus

record fileEvent =
  Time :: microTime
  SeenFiles :: "string list"

record fileWatch =
  FileEvents :: "fileEvent list"

record imageMapStatus =
  BuildStartTime :: "microTime option"
  Image :: string

record imageMap =
  im_ResourceVersion :: string
  im_Status :: imageMapStatus

record containerState =
  Running :: bool
  Waiting :: "string option"
  Terminated :: bool

record container =
  ID :: string
  c_Name :: string
  State :: containerState

record pod =
  p_Name :: string
  p_Namespace :: string
  Phase :: string
  Containers :: "container list"

record kubernetesDiscovery =
  kd_ResourceVersion :: string
  kd_Status :: "pod list"

record kubernetesApplyStatus =
  LastApplyStartTime :: microTime
  ResultYAML :: string

record kubernetesApply =
  ka_ResourceVersion :: string
  ka_Status :: kubernetesApplyStatus

record dockerComposeServiceStatus =
  dcs_ContainerID :: string
  dcs_ContainerName :: string
  dcs_ContainerState :: "containerState option"

record dockerComposeService =
  dcs_ResourceVersion :: string
  dcs_Status :: dockerComposeServiceStatus

record configMap =
  cm_ResourceVersion :: string
  Data :: "(string \<times> string) list"

text \<open>An error of \<^verbatim>\<open>client.Get\<close> or of a status write, with its \<^verbatim>\<open>Error()\<close> text.\<close>

datatype apiError = NotFound string | OtherError string

fun IsNotFound :: "apiError \<Rightarrow> bool" where
  "IsNotFound (NotFound _) = True"
| "IsNotFound (OtherError _) = False"

fun errorText :: "apiError \<Rightarrow> string" where
  "errorText (NotFound s) = s"
| "errorText (OtherError s) = s"

subsection \<open>Planner, updater and resource adapter: the reconciler's collaborators\<close>

record liveUpdatePlan =
  SyncPaths :: "pathMapping list"
  NoMatchPaths :: "string list"
  plan_StopPaths :: "string list"

text \<open>\<^verbatim>\<open>liveupdates.Container\<close>, the argument of the container updater.\<close>

record luContainer =
  lc_ContainerID :: string
  lc_ContainerName :: string
  lc_PodID :: string
  lc_Namespace :: string

text \<open>
  What \<^verbatim>\<open>cu.UpdateContainer\<close> returns: nil, an error for which
  \<^verbatim>\<open>build.IsRunStepFailure\<close> holds, or any other error.
\<close>

datatype updateResult = UpdateOK | RunStepFailure string | UpdateError string

record kubernetesResource =
  kr_Discovery :: "kubernetesDiscovery option"
  kr_ApplyStatus :: "kubernetesApplyStatus option"
  kr_FilteredPods :: "pod list"

text \<open>The two implementations of the interface \<^verbatim>\<open>luResource\<close>, as \<^verbatim>\<open>resource\<close> builds them.\<close>

datatype luResource =
  LuK8sResource liveUpdateKubernetesSelector kubernetesResource "imageMap option"
| LuDCResource liveUpdateDockerComposeSelector dockerComposeService

record world =
  getLiveUpdate :: "apiError + liveUpdate"
  getFileWatch :: "string \<Rightarrow> apiError + fileWatch"
  getImageMap :: "string \<Rightarrow> apiError + imageMap"
  getKubernetesApply :: "string \<Rightarrow> apiError + kubernetesApply"
  getKubernetesDiscovery :: "string \<Rightarrow> apiError + kubernetesDiscovery"
  getDockerComposeService :: "string \<Rightarrow> apiError + dockerComposeService"
  getTriggerQueueConfigMap :: "apiError + configMap"
  statusUpdate :: "liveUpdate \<Rightarrow> apiError option"
  nowMicro :: microTime
  InTriggerQueue :: "configMap \<Rightarrow> string \<Rightarrow> bool"
  NewKubernetesResource ::
    "kubernetesDiscovery option \<Rightarrow> kubernetesApplyStatus option
       \<Rightarrow> kubernetesResource option \<times> string option"
  selectedContainers :: "luResource \<Rightarrow> (pod \<times> container) list"
  bestStartTime :: "luResource \<Rightarrow> microTime"
  NewLiveUpdatePlan :: "liveUpdateSpec \<Rightarrow> string list \<Rightarrow> string + liveUpdatePlan"
  FormatFileChangeList :: "string list \<Rightarrow> string"
  BoilRuns :: "liveUpdateSpec \<Rightarrow> pathMapping list \<Rightarrow> string option"
  MissingLocalPaths :: "pathMapping list \<Rightarrow> string option"
  UpdateContainer :: "luContainer \<Rightarrow> updateResult"
  DisplayName :: "luContainer \<Rightarrow> string"
  Quote :: "string \<Rightarrow> string"

text \<open>
  Modelled from the spec: \<^verbatim>\<open>visitSelectedContainers\<close> of the resource adapter, whose
  two implementations are declared outside \<^verbatim>\<open>reconciler.go\<close>. It invokes the visitor
  for each selected container, in order, and terminates early when the visitor returns
  true. Which containers are selected is the world's \<open>selectedContainers\<close>.
\<close>

fun visitSelectedContainers :: "('s \<Rightarrow> 'a \<Rightarrow> bool \<times> 's) \<Rightarrow> 's \<Rightarrow> 'a list \<Rightarrow> 's" where
  "visitSelectedContainers visit s [] = s"
| "visitSelectedContainers visit s (x # xs) =
     (case visit s x of
        (stop, s') \<Rightarrow> if stop then s' else visitSelectedContainers visit s' xs)"

text \<open>
  Modelled from the spec: the annotation keys and the manual update mode are constants
  of other packages; only their being distinct labels matters.
\<close>

definition AnnotationManagedBy :: string where
  "AnnotationManagedBy = ''tilt.dev/managed-by''"

definition AnnotationManifest :: string where
  "AnnotationManifest = ''tilt.dev/resource''"

definition AnnotationSpanID :: string where
  "AnnotationSpanID = ''tilt.dev/log-span-id''"

definition AnnotationUpdateMode :: string where
  "AnnotationUpdateMode = ''tilt.dev/update-mode''"

definition UpdateModeManual :: string where
  "UpdateModeManual = ''manual''"

text \<open>Reading a Go \<^verbatim>\<open>map[string]string\<close>: a missing key reads as the empty string.\<close>

definition annotation :: "liveUpdate \<Rightarrow> string \<Rightarrow> string" where
  "annotation lu k = (case map_of (Annotations lu) k of None \<Rightarrow> [] | Some v \<Rightarrow> v)"

subsection \<open>The monitor\<close>

record monitorSource =
  modTimeByPath :: "(string \<times> microTime) list"
  lastImageStatus :: "imageMapStatus option"
  lastFileEvent :: "fileEvent option"

record monitorContainerKey =
  containerID :: string
  podName :: string
  namespace :: string

record monitorContainerStatus =
  lastFileTimeSynced :: microTime
  failedReason :: string
  failedMessage :: string
  failedLowWaterMark :: microTime

record monitor =
  manifestName :: string
  spec :: liveUpdateSpec
  sources :: "(string \<times> monitorSource) list"
  lastKubernetesDiscovery :: "kubernetesDiscovery option"
  lastKubernetesApplyStatus :: "kubernetesApplyStatus option"
  lastImageMap :: "imageMap option"
  lastDockerComposeService :: "dockerComposeService option"
  lastTriggerQueue :: "configMap option"
  containers :: "(monitorContainerKey \<times> monitorContainerStatus) list"
  hasChangesToSync :: bool

record reconciler =
  startedTime :: microTime
  monitors :: "(string \<times> monitor) list"

text \<open>What a reconcile does to the outside, in program order.\<close>

datatype effect =
  DispatchLiveUpdateDelete string
| DispatchLiveUpdateUpsert liveUpdate
| DispatchBuildStarted string "string list"
| DispatchBuildComplete string "string option"
| CallUpdateContainer luContainer
| StatusWrite liveUpdate

definition reasonObjectNotFound :: string where
  "reasonObjectNotFound = ''ObjectNotFound''"

subsection \<open>Failed states\<close>

definition createFailedState ::
  "world \<Rightarrow> liveUpdate \<Rightarrow> string \<Rightarrow> string \<Rightarrow> liveUpdateStateFailed" where
  "createFailedState w obj reason msg =
     (let transitionTime =
        (case st_Failed (Status obj) of
           Some old \<Rightarrow> if f_Reason old = reason then f_LastTransitionTime old else nowMicro w
         | None \<Rightarrow> nowMicro w)
      in \<lparr>f_Reason = reason, f_Message = msg, f_LastTransitionTime = transitionTime\<rparr>)"

definition adjustFailedStateTimestamps ::
  "world \<Rightarrow> liveUpdate \<Rightarrow> liveUpdateStatus \<Rightarrow> liveUpdateStatus" where
  "adjustFailedStateTimestamps w obj newStatus =
     (case st_Failed newStatus of
        None \<Rightarrow> newStatus
      | Some f \<Rightarrow> newStatus\<lparr>st_Failed := Some (createFailedState w obj (f_Reason f) (f_Message f))\<rparr>)"

definition ensureSelectorValid :: "world \<Rightarrow> liveUpdate \<Rightarrow> liveUpdateStateFailed option" where
  "ensureSelectorValid w lu =
     (case Kubernetes (Selector (Spec lu)) of
        Some k \<Rightarrow>
          if DiscoveryName k = []
          then Some (createFailedState w lu ''Invalid'' ''Kubernetes selector requires DiscoveryName'')
          else None
      | None \<Rightarrow>
          (case DockerCompose (Selector (Spec lu)) of
             Some dc \<Rightarrow>
               if Service dc = []
               then Some (createFailedState w lu ''Invalid'' ''DockerCompose selector requires Service'')
               else None
           | None \<Rightarrow> Some (createFailedState w lu ''Invalid'' ''No valid selector'')))"

text \<open>
  \<^verbatim>\<open>handleFailure\<close>: a failed state equal to the stored one is not written again.
  The result is the list of effects and the error returned.
\<close>

definition handleFailure ::
  "world \<Rightarrow> liveUpdate \<Rightarrow> liveUpdateStateFailed \<Rightarrow> effect list \<times> apiError option" where
  "handleFailure w lu failed =
     (let isNew = (st_Failed (Status lu) = None \<or> st_Failed (Status lu) \<noteq> Some failed)
      in if \<not> isNew then ([], None)
         else (let update = lu\<lparr>Status := (Status lu)\<lparr>st_Failed := Some failed\<rparr>\<rparr>
               in ([StatusWrite update], statusUpdate w update)))"

subsection \<open>Refreshing the monitor\<close>

definition newMonitor :: "liveUpdate \<Rightarrow> monitor" where
  "newMonitor obj =
     \<lparr>manifestName = annotation obj AnnotationManifest, spec = Spec obj, sources = [],
      lastKubernetesDiscovery = None, lastKubernetesApplyStatus = None, lastImageMap = None,
      lastDockerComposeService = None, lastTriggerQueue = None, containers = [],
      hasChangesToSync = False\<rparr>"

text \<open>
  \<^verbatim>\<open>ensureMonitorExists\<close> returns the monitor of the live update and the reconciler
  that holds it: the stored monitor when the spec is the one it was created for, a fresh
  one otherwise.
\<close>

definition ensureMonitorExists :: "reconciler \<Rightarrow> string \<Rightarrow> liveUpdate \<Rightarrow> monitor \<times> reconciler" where
  "ensureMonitorExists r name obj =
     (case map_of (monitors r) name of
        Some m \<Rightarrow>
          if Spec obj = spec m then (m, r)
          else (newMonitor obj, r\<lparr>monitors := AList.update name (newMonitor obj) (monitors r)\<rparr>)
      | None \<Rightarrow> (newMonitor obj, r\<lparr>monitors := AList.update name (newMonitor obj) (monitors r)\<rparr>))"

text \<open>The inner loop of \<^verbatim>\<open>reconcileOneSource\<close>: one seen file of one event.\<close>

definition recordFile ::
  "microTime \<Rightarrow> string \<Rightarrow> (string \<times> microTime) list \<Rightarrow> (string \<times> microTime) list" where
  "recordFile t f mtp =
     (case map_of mtp f of
        None \<Rightarrow> AList.update f t mtp
      | Some existing \<Rightarrow> if existing < t then AList.update f t mtp else mtp)"

text \<open>
  One event of the loop that consumes the file events: an event that the build start
  time is \<^verbatim>\<open>After\<close> is skipped.
\<close>

definition consumeFileEvent ::
  "imageMapStatus \<Rightarrow> fileEvent \<Rightarrow> (string \<times> microTime) list \<Rightarrow> (string \<times> microTime) list" where
  "consumeFileEvent newImageStatus event mtp =
     (if (case BuildStartTime newImageStatus of
            Some bst \<Rightarrow> Time event < bst
          | None \<Rightarrow> False)
      then mtp
      else fold (recordFile (Time event)) (SeenFiles event) mtp)"

definition consumeFileEvents ::
  "imageMapStatus \<Rightarrow> fileEvent list \<Rightarrow> (string \<times> microTime) list \<Rightarrow> (string \<times> microTime) list" where
  "consumeFileEvents newImageStatus events mtp = fold (consumeFileEvent newImageStatus) events mtp"

definition zeroImageMap :: imageMap where
  "zeroImageMap = \<lparr>im_ResourceVersion = [], im_Status = \<lparr>BuildStartTime = None, Image = []\<rparr>\<rparr>"

definition newMonitorSource :: monitorSource where
  "newMonitorSource = \<lparr>modTimeByPath = [], lastImageStatus = None, lastFileEvent = None\<rparr>"

text \<open>
  The reconcile functions mutate the monitor through a pointer, so each returns the
  monitor as it is left together with Go's pair of results: \<open>Inl err\<close> for a non-nil
  error, \<open>Inr changed\<close> otherwise.
\<close>

definition reconcileOneSource ::
  "world \<Rightarrow> monitor \<Rightarrow> liveUpdateSource \<Rightarrow> monitor \<times> (apiError + bool)" where
  "reconcileOneSource w m source =
     (let fwn = FileWatch source; imn = ImageMap source
      in case (if fwn \<noteq> [] then getFileWatch w fwn else Inr \<lparr>FileEvents = []\<rparr>) of
           Inl err \<Rightarrow> (m, Inl err)
         | Inr fw \<Rightarrow>
             (case (if imn \<noteq> [] then getImageMap w imn else Inr zeroImageMap) of
                Inl err \<Rightarrow> (m, Inl err)
              | Inr im \<Rightarrow>
                  (let events = FileEvents fw
                   in if events = [] \<or> fwn = [] then (m, Inr False)
                      else
                        (let mSource = (case map_of (sources m) fwn of
                                          Some src \<Rightarrow> src
                                        | None \<Rightarrow> newMonitorSource);
                             newImageStatus = im_Status im;
                             imageChanged =
                               (imn \<noteq> [] \<and> (lastImageStatus mSource = None
                                  \<or> lastImageStatus mSource \<noteq> Some newImageStatus));
                             mSource1 = (if imn \<noteq> []
                                         then mSource\<lparr>lastImageStatus := Some newImageStatus\<rparr>
                                         else mSource);
                             newLastFileEvent = last events;
                             fileWatchChanged =
                               (lastFileEvent mSource1 = None
                                  \<or> lastFileEvent mSource1 \<noteq> Some newLastFileEvent);
                             mSource2 = mSource1\<lparr>lastFileEvent := Some newLastFileEvent\<rparr>;
                             mSource3 =
                               (if fileWatchChanged
                                then mSource2\<lparr>modTimeByPath :=
                                       consumeFileEvents newImageStatus events (modTimeByPath mSource2)\<rparr>
                                else mSource2)
                         in (m\<lparr>sources := AList.update fwn mSource3 (sources m)\<rparr>,
                             Inr (fileWatchChanged \<or> imageChanged))))))"

fun reconcileSourcesLoop ::
  "world \<Rightarrow> monitor \<Rightarrow> bool \<Rightarrow> liveUpdateSource list \<Rightarrow> monitor \<times> (apiError + bool)" where
  "reconcileSourcesLoop w m hasChange [] = (m, Inr hasChange)"
| "reconcileSourcesLoop w m hasChange (s # ss) =
     (case reconcileOneSource w m s of
        (m', Inl err) \<Rightarrow> (m', Inl err)
      | (m', Inr oneChange) \<Rightarrow> reconcileSourcesLoop w m' (hasChange \<or> oneChange) ss)"

definition reconcileSources :: "world \<Rightarrow> monitor \<Rightarrow> monitor \<times> (apiError + bool)" where
  "reconcileSources w m =
     (if Sources (spec m) = [] then (m, Inr False)
      else reconcileSourcesLoop w m False (Sources (spec m)))"

text \<open>
  Modelled from the spec: \<^verbatim>\<open>configmap.TriggerQueue\<close> is declared outside
  \<^verbatim>\<open>reconciler.go\<close>. The trigger queue is a ConfigMap whose keys enumerate the
  manifest names that await a manual trigger: a set of names. What the client answers
  when asked for that ConfigMap is the world's \<open>getTriggerQueueConfigMap\<close>. A ConfigMap
  that does not exist is the empty set, so the fetch answers a not-found of the client
  with an empty ConfigMap and no error; any other error of the client is returned.
\<close>

definition emptyConfigMap :: configMap where
  "emptyConfigMap = \<lparr>cm_ResourceVersion = [], Data = []\<rparr>"

definition TriggerQueue :: "world \<Rightarrow> apiError + configMap" where
  "TriggerQueue w =
     (case getTriggerQueueConfigMap w of
        Inl err \<Rightarrow> if IsNotFound err then Inr emptyConfigMap else Inl err
      | Inr cm \<Rightarrow> Inr cm)"

text \<open>
  \<^verbatim>\<open>reconcileTriggerQueue\<close>: the error of \<^verbatim>\<open>configmap.TriggerQueue\<close> goes through
  \<^verbatim>\<open>client.IgnoreNotFound\<close>. The entries of \<open>Data\<close> are kept in one canonical order, so
  that deep equality of the Go maps is equality of the lists.
\<close>

definition reconcileTriggerQueue :: "world \<Rightarrow> monitor \<Rightarrow> monitor \<times> (apiError + bool)" where
  "reconcileTriggerQueue w m =
     (case TriggerQueue w of
        Inl err \<Rightarrow> (m, if IsNotFound err then Inr False else Inl err)
      | Inr queue \<Rightarrow>
          if (case lastTriggerQueue m of
                Some lastQueue \<Rightarrow> Data queue = Data lastQueue
              | None \<Rightarrow> False)
          then (m, Inr False)
          else (m\<lparr>lastTriggerQueue := Some queue\<rparr>, Inr True))"

definition reconcileKubernetesResource :: "world \<Rightarrow> monitor \<Rightarrow> monitor \<times> (apiError + bool)" where
  "reconcileKubernetesResource w m =
     (case Kubernetes (Selector (spec m)) of
        None \<Rightarrow> (m, Inr False)
      | Some selector \<Rightarrow>
          (case (if ApplyName selector \<noteq> []
                 then (case getKubernetesApply w (ApplyName selector) of
                         Inl err \<Rightarrow> Inl err
                       | Inr a \<Rightarrow> Inr (Some a))
                 else Inr None) of
             Inl err \<Rightarrow> (m, Inl err)
           | Inr ka \<Rightarrow>
               (case getKubernetesDiscovery w (DiscoveryName selector) of
                  Inl err \<Rightarrow> (m, Inl err)
                | Inr kd \<Rightarrow>
                    (case (if ImageMapName selector \<noteq> []
                           then (case getImageMap w (ImageMapName selector) of
                                   Inl err \<Rightarrow> Inl err
                                 | Inr i \<Rightarrow> Inr (Some i))
                           else Inr None) of
                       Inl err \<Rightarrow> (m, Inl err)
                     | Inr im \<Rightarrow>
                         (let applyChanged =
                                (case ka of
                                   Some a \<Rightarrow> lastKubernetesApplyStatus m = None
                                     \<or> lastKubernetesApplyStatus m \<noteq> Some (ka_Status a)
                                 | None \<Rightarrow> False);
                              imageMapChanged =
                                (case im of
                                   Some i \<Rightarrow> lastImageMap m = None \<or> lastImageMap m \<noteq> Some i
                                 | None \<Rightarrow> False);
                              discoveryChanged =
                                (case lastKubernetesDiscovery m of
                                   None \<Rightarrow> True
                                 | Some lastKd \<Rightarrow> kd_Status lastKd \<noteq> kd_Status kd)
                          in (m\<lparr>lastKubernetesApplyStatus := map_option ka_Status ka,
                                lastKubernetesDiscovery := Some kd,
                                lastImageMap := im\<rparr>,
                              Inr (applyChanged \<or> imageMapChanged \<or> discoveryChanged)))))))"

definition reconcileDockerComposeService :: "world \<Rightarrow> monitor \<Rightarrow> monitor \<times> (apiError + bool)" where
  "reconcileDockerComposeService w m =
     (case DockerCompose (Selector (spec m)) of
        None \<Rightarrow> (m, Inr False)
      | Some selector \<Rightarrow>
          (case getDockerComposeService w (Service selector) of
             Inl err \<Rightarrow> (m, Inl err)
           | Inr dcs \<Rightarrow>
               (let changed =
                      (case lastDockerComposeService m of
                         None \<Rightarrow> True
                       | Some lastDcs \<Rightarrow> dcs_Status lastDcs \<noteq> dcs_Status dcs)
                in (m\<lparr>lastDockerComposeService := Some dcs\<rparr>, Inr changed))))"

subsection \<open>Garbage collection\<close>

text \<open>The time of the current build for one source monitor: \<^verbatim>\<open>gcTime\<close>.\<close>

definition gcTimeOf :: "world \<Rightarrow> luResource \<Rightarrow> monitorSource \<Rightarrow> microTime" where
  "gcTimeOf w res mSource =
     (case lastImageStatus mSource of
        Some st \<Rightarrow> (case BuildStartTime st of
                      Some t \<Rightarrow> t
                    | None \<Rightarrow> bestStartTime w res)
      | None \<Rightarrow> bestStartTime w res)"

definition clearOldFailure :: "microTime \<Rightarrow> monitorContainerStatus \<Rightarrow> monitorContainerStatus" where
  "clearOldFailure gcTime c =
     (if failedLowWaterMark c \<noteq> 0 \<and> failedLowWaterMark c < gcTime
      then c\<lparr>failedLowWaterMark := 0, failedReason := [], failedMessage := []\<rparr>
      else c)"

text \<open>The body of the loop of \<^verbatim>\<open>garbageCollectFileChanges\<close> over the sources of the spec.\<close>

definition garbageCollectOneSource ::
  "world \<Rightarrow> luResource \<Rightarrow> liveUpdateSource \<Rightarrow> monitor \<Rightarrow> monitor" where
  "garbageCollectOneSource w res source m =
     (let fwn = FileWatch source
      in case map_of (sources m) fwn of
           None \<Rightarrow> m
         | Some mSource \<Rightarrow>
             (let gcTime = gcTimeOf w res mSource
              in if gcTime \<noteq> 0
                 then m\<lparr>sources :=
                          AList.update fwn
                            (mSource\<lparr>modTimeByPath :=
                               filter (\<lambda>(p, t). \<not> t < gcTime) (modTimeByPath mSource)\<rparr>)
                            (sources m),
                        containers := map (\<lambda>(key, c). (key, clearOldFailure gcTime c)) (containers m)\<rparr>
                 else m))"

definition garbageCollectFileChanges :: "world \<Rightarrow> luResource \<Rightarrow> monitor \<Rightarrow> monitor" where
  "garbageCollectFileChanges w res m = fold (garbageCollectOneSource w res) (Sources (spec m)) m"

definition garbageCollectMonitorContainers :: "world \<Rightarrow> luResource \<Rightarrow> monitor \<Rightarrow> monitor" where
  "garbageCollectMonitorContainers w res m =
     (let containerIDs =
            visitSelectedContainers
              (\<lambda>ids (pod, c). (False, if ID c \<noteq> [] then ID c # ids else ids))
              [] (selectedContainers w res)
      in m\<lparr>containers := filter (\<lambda>(key, c). containerID key \<in> set containerIDs) (containers m)\<rparr>)"

subsection \<open>Planning and applying an update\<close>

definition resource :: "world \<Rightarrow> liveUpdate \<Rightarrow> monitor \<Rightarrow> string + luResource" where
  "resource w lu m =
     (case Kubernetes (Selector (Spec lu)) of
        Some k \<Rightarrow>
          (case NewKubernetesResource w (lastKubernetesDiscovery m) (lastKubernetesApplyStatus m) of
             (res, err) \<Rightarrow>
               (case err of
                  Some e \<Rightarrow> Inl (''creating kube resource: '' @ e)
                | None \<Rightarrow>
                    (case res of
                       None \<Rightarrow> Inl ''creating kube resource: <nil>''
                     | Some kr \<Rightarrow> Inr (LuK8sResource k kr (lastImageMap m)))))
      | None \<Rightarrow>
          (case DockerCompose (Selector (Spec lu)) of
             Some dc \<Rightarrow>
               (case lastDockerComposeService m of
                  None \<Rightarrow> Inl ''no docker compose status''
                | Some dcs \<Rightarrow> Inr (LuDCResource dc dcs))
           | None \<Rightarrow> Inl ''No valid selector''))"

text \<open>
  \<^verbatim>\<open>createLiveUpdatePlan\<close>: \<open>Inl\<close> is the failed state that stops the update, \<open>Inr\<close> the
  plan. The failed state has no transition time yet. The verb \<^verbatim>\<open>%q\<close> of the message is
  the world's \<open>Quote\<close>.
\<close>

definition createLiveUpdatePlan ::
  "world \<Rightarrow> liveUpdateSpec \<Rightarrow> string list \<Rightarrow> liveUpdateStateFailed + liveUpdatePlan" where
  "createLiveUpdatePlan w sp filesChanged =
     (case NewLiveUpdatePlan w sp filesChanged of
        Inl err \<Rightarrow>
          Inl \<lparr>f_Reason = ''UpdateStopped'', f_Message = ''No update plan: '' @ err,
               f_LastTransitionTime = 0\<rparr>
      | Inr plan \<Rightarrow>
          if NoMatchPaths plan \<noteq> []
          then Inl \<lparr>f_Reason = ''UpdateStopped'',
                    f_Message = ''Found file(s) not matching any sync (files: ''
                      @ FormatFileChangeList w (NoMatchPaths plan) @ '')'',
                    f_LastTransitionTime = 0\<rparr>
          else (case plan_StopPaths plan of
                  stopPath # _ \<Rightarrow>
                    Inl \<lparr>f_Reason = ''UpdateStopped'',
                         f_Message = ''Detected change to stop file '' @ Quote w stopPath,
                         f_LastTransitionTime = 0\<rparr>
                | [] \<Rightarrow> Inr plan))"

record input =
  IsDC :: bool
  ChangedFiles :: "pathMapping list"
  in_Containers :: "luContainer list"
  in_LastFileTimeSynced :: microTime

text \<open>
  The loop of \<^verbatim>\<open>applyInternal\<close> over the containers of the input. Its state is
  \<^verbatim>\<open>lastExecErrorStatus\<close>, the result so far and the updater calls made so far.
\<close>

fun applyContainers ::
  "world \<Rightarrow> input \<Rightarrow> liveUpdateContainerStatus option \<Rightarrow> liveUpdateStatus \<Rightarrow> effect list
     \<Rightarrow> luContainer list \<Rightarrow> liveUpdateStatus \<times> effect list" where
  "applyContainers w inp lastExecErrorStatus result calls [] = (result, calls)"
| "applyContainers w inp lastExecErrorStatus result calls (cInfo # rest) =
     (let err = UpdateContainer w cInfo;
          calls' = calls @ [CallUpdateContainer cInfo];
          lastFileTimeSynced' =
            (if in_LastFileTimeSynced inp = 0 then nowMicro w else in_LastFileTimeSynced inp);
          cStatus =
            \<lparr>cs_ContainerName = lc_ContainerName cInfo, cs_ContainerID = lc_ContainerID cInfo,
             cs_PodName = lc_PodID cInfo, cs_Namespace = lc_Namespace cInfo,
             cs_LastFileTimeSynced = lastFileTimeSynced', cs_LastExecError = [],
             cs_Waiting = None\<rparr>
      in case err of
           RunStepFailure e \<Rightarrow>
             applyContainers w inp (Some (cStatus\<lparr>cs_LastExecError := e\<rparr>))
               (result\<lparr>st_Containers := st_Containers result @ [cStatus\<lparr>cs_LastExecError := e\<rparr>]\<rparr>)
               calls' rest
         | UpdateError e \<Rightarrow>
             (result\<lparr>st_Failed := Some
                \<lparr>f_Reason = ''UpdateFailed'',
                 f_Message = (if cs_PodName cStatus \<noteq> []
                              then ''Updating pod '' @ cs_PodName cStatus @ '': '' @ e
                              else ''Updating container '' @ DisplayName w cInfo @ '': '' @ e),
                 f_LastTransitionTime = 0\<rparr>\<rparr>,
              calls')
         | UpdateOK \<Rightarrow>
             (case lastExecErrorStatus of
                Some failedStatus \<Rightarrow>
                  (result\<lparr>st_Failed := Some
                     \<lparr>f_Reason = ''PodsInconsistent'',
                      f_Message = ''Pods in inconsistent state. Success: pod '' @ cs_PodName cStatus
                        @ ''. Failure: pod '' @ cs_PodName failedStatus
                        @ ''. Error: '' @ cs_LastExecError failedStatus,
                      f_LastTransitionTime = 0\<rparr>\<rparr>,
                   calls')
              | None \<Rightarrow>
                  applyContainers w inp None
                    (result\<lparr>st_Containers := st_Containers result @ [cStatus]\<rparr>) calls' rest))"

definition emptyStatus :: liveUpdateStatus where
  "emptyStatus = \<lparr>st_Failed = None, st_Containers = []\<rparr>"

text \<open>
  \<^verbatim>\<open>applyInternal\<close>: the status and the updater calls it made. Which of the two
  updaters \<^verbatim>\<open>containerUpdater\<close> picks is part of the world's \<open>UpdateContainer\<close>; the
  method \<^verbatim>\<open>DisplayName\<close> of a container is the world's \<open>DisplayName\<close>.
\<close>

definition applyInternal ::
  "world \<Rightarrow> liveUpdateSpec \<Rightarrow> input \<Rightarrow> liveUpdateStatus \<times> effect list" where
  "applyInternal w sp inp =
     (case BoilRuns w sp (ChangedFiles inp) of
        Some err \<Rightarrow>
          (emptyStatus\<lparr>st_Failed := Some
             \<lparr>f_Reason = ''Invalid'', f_Message = ''Building exec: '' @ err,
              f_LastTransitionTime = 0\<rparr>\<rparr>, [])
      | None \<Rightarrow>
          (case MissingLocalPaths w (ChangedFiles inp) of
             Some err \<Rightarrow>
               (emptyStatus\<lparr>st_Failed := Some
                  \<lparr>f_Reason = ''Invalid'', f_Message = ''Mapping paths: '' @ err,
                   f_LastTransitionTime = 0\<rparr>\<rparr>, [])
           | None \<Rightarrow> applyContainers w inp None emptyStatus [] (in_Containers inp)))"

subsection \<open>The pass over the selected containers\<close>

definition zeroMonitorContainerStatus :: monitorContainerStatus where
  "zeroMonitorContainerStatus =
     \<lparr>lastFileTimeSynced = 0, failedReason = [], failedMessage = [], failedLowWaterMark = 0\<rparr>"

definition containerKey :: "pod \<Rightarrow> container \<Rightarrow> monitorContainerKey" where
  "containerKey p c = \<lparr>containerID = ID c, podName = p_Name p, namespace = p_Namespace p\<rparr>"

text \<open>Reading \<^verbatim>\<open>monitor.containers[cKey]\<close>: the zero value when the key is missing.\<close>

definition containerStatusOf :: "monitor \<Rightarrow> monitorContainerKey \<Rightarrow> monitorContainerStatus" where
  "containerStatusOf m cKey =
     (case map_of (containers m) cKey of
        Some cStatus \<Rightarrow> cStatus
      | None \<Rightarrow> zeroMonitorContainerStatus)"

text \<open>The first visitor of \<^verbatim>\<open>maybeSync\<close>: is a selected container unrecoverable?\<close>

definition checkUnrecoverable ::
  "world \<Rightarrow> liveUpdate \<Rightarrow> monitor \<Rightarrow> liveUpdateStateFailed option \<Rightarrow> pod \<times> container
     \<Rightarrow> bool \<times> liveUpdateStateFailed option" where
  "checkUnrecoverable w lu m failed pc =
     (case pc of
        (p, c) \<Rightarrow>
          (case map_of (containers m) (containerKey p c) of
             Some cStatus \<Rightarrow>
               if failedReason cStatus \<noteq> []
               then (True, Some (createFailedState w lu (failedReason cStatus) (failedMessage cStatus)))
               else (False, failed)
           | None \<Rightarrow> (False, failed)))"

text \<open>\<^verbatim>\<open>highWaterMark\<close> of a container: where its changed files start.\<close>

definition highWaterMarkOf :: "reconciler \<Rightarrow> monitor \<Rightarrow> monitorContainerKey \<Rightarrow> microTime" where
  "highWaterMarkOf r m cKey =
     (case map_of (containers m) cKey of
        Some cStatus \<Rightarrow>
          if lastFileTimeSynced cStatus \<noteq> 0 then lastFileTimeSynced cStatus else startedTime r
      | None \<Rightarrow> startedTime r)"

text \<open>
  The loop that determines the changed files: the accumulator is
  \<open>(filesChanged, newHighWaterMark, newLowWaterMark)\<close>.
\<close>

definition scanFile ::
  "microTime \<Rightarrow> string \<times> microTime \<Rightarrow> string list \<times> microTime \<times> microTime
     \<Rightarrow> string list \<times> microTime \<times> microTime" where
  "scanFile highWaterMark ft acc =
     (case ft of
        (f, t) \<Rightarrow>
          (case acc of
             (filesChanged, newHighWaterMark, newLowWaterMark) \<Rightarrow>
               if highWaterMark < t
               then (filesChanged @ [f],
                     (if newHighWaterMark < t then t else newHighWaterMark),
                     (if newLowWaterMark = 0 \<or> t < newLowWaterMark then t else newLowWaterMark))
               else acc))"

definition scanSources ::
  "microTime \<Rightarrow> (string \<times> monitorSource) list \<Rightarrow> string list \<times> microTime \<times> microTime" where
  "scanSources highWaterMark srcs =
     fold (\<lambda>(fwn, src) acc. fold (scanFile highWaterMark) (modTimeByPath src) acc)
       srcs ([], highWaterMark, 0)"

text \<open>\<^verbatim>\<open>sliceutils.DedupedAndSorted\<close>.\<close>

definition DedupedAndSorted :: "string list \<Rightarrow> string list" where
  "DedupedAndSorted xs = sort (remdups xs)"

record syncState =
  ss_status :: liveUpdateStatus
  ss_monitor :: monitor
  ss_updateEventDispatched :: bool
  ss_terminatedContainerPodName :: string
  ss_hasAnyFilesToSync :: bool
  ss_trace :: "effect list"

definition isTerminated :: "pod \<Rightarrow> container \<Rightarrow> bool" where
  "isTerminated p cInfo \<longleftrightarrow>
     Phase p = ''Succeeded'' \<or> Phase p = ''Failed'' \<or> Terminated (State cInfo)"

definition waitingOf :: "bool \<Rightarrow> container \<Rightarrow> liveUpdateContainerStateWaiting option" where
  "waitingOf isWaitingOnTrigger cInfo =
     (if \<not> Running (State cInfo) \<or> ID cInfo = []
      then Some \<lparr>w_Reason = ''ContainerWaiting'', w_Message = ''Waiting for container to start''\<rparr>
      else if isWaitingOnTrigger
      then Some \<lparr>w_Reason = ''Trigger'', w_Message = ''Only updates on manual trigger''\<rparr>
      else None)"

text \<open>
  The plan of one container and what is done with it: the result is
  \<open>(filesApplied, oneUpdateStatus, updateEventDispatched, effects)\<close>.
\<close>

definition updateOneContainer ::
  "world \<Rightarrow> liveUpdate \<Rightarrow> bool \<Rightarrow> bool \<Rightarrow> pod \<Rightarrow> container \<Rightarrow> monitorContainerStatus
     \<Rightarrow> string list \<Rightarrow> microTime \<Rightarrow> bool \<times> liveUpdateStatus \<times> bool \<times> effect list" where
  "updateOneContainer w lu isWaitingOnTrigger updateEventDispatched p cInfo cStatus filesChanged
       newHighWaterMark =
     (let waiting = waitingOf isWaitingOnTrigger cInfo;
          noUpdate =
            \<lparr>st_Failed = None,
             st_Containers =
               [\<lparr>cs_ContainerName = c_Name cInfo, cs_ContainerID = ID cInfo,
                 cs_PodName = p_Name p, cs_Namespace = p_Namespace p,
                 cs_LastFileTimeSynced = lastFileTimeSynced cStatus, cs_LastExecError = [],
                 cs_Waiting = waiting\<rparr>]\<rparr>
      in case createLiveUpdatePlan w (Spec lu) filesChanged of
           Inl failed \<Rightarrow>
             (False, emptyStatus\<lparr>st_Failed := Some failed\<rparr>, updateEventDispatched, [])
         | Inr plan \<Rightarrow>
             if SyncPaths plan = [] then (False, noUpdate, updateEventDispatched, [])
             else if Waiting (State cInfo) = Some ''CrashLoopBackOff''
             then (False,
                   emptyStatus\<lparr>st_Failed := Some (createFailedState w lu ''CrashLoopBackOff''
                     (''Cannot live update because container crashing. Pod: '' @ p_Name p))\<rparr>,
                   updateEventDispatched, [])
             else if waiting \<noteq> None then (False, noUpdate, updateEventDispatched, [])
             else
               (case applyInternal w (Spec lu)
                       \<lparr>IsDC = (DockerCompose (Selector (Spec lu)) \<noteq> None),
                        ChangedFiles = SyncPaths plan,
                        in_Containers =
                          [\<lparr>lc_ContainerID = ID cInfo, lc_ContainerName = c_Name cInfo,
                            lc_PodID = p_Name p, lc_Namespace = p_Namespace p\<rparr>],
                        in_LastFileTimeSynced = newHighWaterMark\<rparr> of
                  (applied, calls) \<Rightarrow>
                    (True, applied, True,
                     (if updateEventDispatched then []
                      else [DispatchBuildStarted (annotation lu AnnotationManifest) filesChanged])
                     @ calls)))"

text \<open>
  How one container's result changes its entry in \<^verbatim>\<open>monitor.containers\<close>: a failure is
  remembered with its low-water mark, a successful apply advances the watermark.
\<close>

definition updateContainerMonitor ::
  "monitorContainerStatus \<Rightarrow> liveUpdateStatus \<Rightarrow> bool \<Rightarrow> microTime \<Rightarrow> microTime
     \<Rightarrow> monitorContainerStatus" where
  "updateContainerMonitor cStatus oneUpdateStatus filesApplied newHighWaterMark newLowWaterMark =
     (case st_Failed oneUpdateStatus of
        Some failed \<Rightarrow>
          cStatus\<lparr>failedReason := f_Reason failed, failedMessage := f_Message failed,
                  failedLowWaterMark := newLowWaterMark\<rparr>
      | None \<Rightarrow>
          if filesApplied then cStatus\<lparr>lastFileTimeSynced := newHighWaterMark\<rparr> else cStatus)"

text \<open>The second visitor of \<^verbatim>\<open>maybeSync\<close>; the boolean says whether the visit stops.\<close>

definition visitContainer ::
  "world \<Rightarrow> reconciler \<Rightarrow> liveUpdate \<Rightarrow> bool \<Rightarrow> syncState \<Rightarrow> pod \<times> container
     \<Rightarrow> bool \<times> syncState" where
  "visitContainer w r lu isWaitingOnTrigger s pc =
     (case pc of
        (p, cInfo) \<Rightarrow>
          (let cKey = containerKey p cInfo;
               highWaterMark = highWaterMarkOf r (ss_monitor s) cKey;
               cStatus = containerStatusOf (ss_monitor s) cKey
           in case scanSources highWaterMark (sources (ss_monitor s)) of
                (scanned, newHighWaterMark, newLowWaterMark) \<Rightarrow>
                  (let filesChanged = DedupedAndSorted scanned;
                       s1 = (if filesChanged \<noteq> [] then s\<lparr>ss_hasAnyFilesToSync := True\<rparr> else s)
                   in if isTerminated p cInfo
                      then (False,
                            if ss_terminatedContainerPodName s1 = []
                            then s1\<lparr>ss_terminatedContainerPodName := p_Name p\<rparr>
                            else s1)
                      else
                        (case updateOneContainer w lu isWaitingOnTrigger
                                (ss_updateEventDispatched s1) p cInfo cStatus filesChanged
                                newHighWaterMark of
                           (filesApplied, oneUpdateStatus0, dispatched, effects) \<Rightarrow>
                             (let oneUpdateStatus = adjustFailedStateTimestamps w lu oneUpdateStatus0;
                                  cStatus' = updateContainerMonitor cStatus oneUpdateStatus
                                               filesApplied newHighWaterMark newLowWaterMark;
                                  s2 = s1\<lparr>ss_monitor := (ss_monitor s1)
                                            \<lparr>containers :=
                                               AList.update cKey cStatus' (containers (ss_monitor s1))\<rparr>,
                                          ss_updateEventDispatched := dispatched,
                                          ss_trace := ss_trace s1 @ effects\<rparr>
                              in case st_Failed oneUpdateStatus of
                                   Some failed \<Rightarrow>
                                     (True, s2\<lparr>ss_status := emptyStatus\<lparr>st_Failed := Some failed\<rparr>\<rparr>)
                                 | None \<Rightarrow>
                                     (False,
                                      s2\<lparr>ss_status := (ss_status s2)
                                           \<lparr>st_Containers := st_Containers (ss_status s2)
                                              @ st_Containers oneUpdateStatus\<rparr>\<rparr>))))))"

text \<open>\<^verbatim>\<open>dispatchCompleteBuildAction\<close>: the error is the failure or the first exec error.\<close>

definition dispatchCompleteBuildAction :: "liveUpdate \<Rightarrow> liveUpdateStatus \<Rightarrow> effect" where
  "dispatchCompleteBuildAction lu newStatus =
     DispatchBuildComplete (annotation lu AnnotationManifest)
       (case st_Failed newStatus of
          Some failed \<Rightarrow> Some (f_Message failed)
        | None \<Rightarrow>
            (case filter (\<lambda>c. cs_LastExecError c \<noteq> []) (st_Containers newStatus) of
               c # _ \<Rightarrow> Some (cs_LastExecError c)
             | [] \<Rightarrow> None))"

definition initialSyncState :: "monitor \<Rightarrow> syncState" where
  "initialSyncState m =
     \<lparr>ss_status = emptyStatus, ss_monitor = m, ss_updateEventDispatched = False,
      ss_terminatedContainerPodName = [], ss_hasAnyFilesToSync = False, ss_trace = []\<rparr>"

text \<open>The promotion at the end of \<^verbatim>\<open>maybeSync\<close>, after the pass over the containers.\<close>

definition promoteTerminated :: "world \<Rightarrow> liveUpdate \<Rightarrow> syncState \<Rightarrow> liveUpdateStatus" where
  "promoteTerminated w lu s =
     (if st_Failed (ss_status s) = None \<and> ss_terminatedContainerPodName s \<noteq> []
         \<and> ss_hasAnyFilesToSync s \<and> st_Containers (ss_status s) = []
      then (ss_status s)\<lparr>st_Failed := Some (createFailedState w lu ''Terminated''
              (''Container for live update is stopped. Pod name: ''
                 @ ss_terminatedContainerPodName s))\<rparr>
      else ss_status s)"

definition isWaitingOnTriggerOf :: "world \<Rightarrow> liveUpdate \<Rightarrow> monitor \<Rightarrow> bool" where
  "isWaitingOnTriggerOf w lu m =
     (let manifest = annotation lu AnnotationManifest;
          updateMode = annotation lu AnnotationUpdateMode;
          inTriggerQueue =
            (case lastTriggerQueue m of
               Some queue \<Rightarrow> manifest \<noteq> [] \<and> InTriggerQueue w queue manifest
             | None \<Rightarrow> False)
      in updateMode = UpdateModeManual \<and> \<not> inTriggerQueue)"

text \<open>The pass of \<^verbatim>\<open>maybeSync\<close> over the selected containers, from the monitor after GC.\<close>

definition syncContainers ::
  "world \<Rightarrow> reconciler \<Rightarrow> liveUpdate \<Rightarrow> bool \<Rightarrow> monitor \<Rightarrow> (pod \<times> container) list \<Rightarrow> syncState" where
  "syncContainers w r lu isWaitingOnTrigger m selected =
     visitSelectedContainers (visitContainer w r lu isWaitingOnTrigger) (initialSyncState m) selected"

text \<open>\<^verbatim>\<open>maybeSync\<close>: the new status, the monitor as it is left, and the effects.\<close>

definition maybeSync ::
  "world \<Rightarrow> reconciler \<Rightarrow> liveUpdate \<Rightarrow> monitor \<Rightarrow> liveUpdateStatus \<times> monitor \<times> effect list" where
  "maybeSync w r lu m =
     (case resource w lu m of
        Inl err \<Rightarrow> (emptyStatus\<lparr>st_Failed := Some (createFailedState w lu ''Invalid'' err)\<rparr>, m, [])
      | Inr res \<Rightarrow>
          (let isWaitingOnTrigger = isWaitingOnTriggerOf w lu m;
               m1 = garbageCollectFileChanges w res m;
               m2 = garbageCollectMonitorContainers w res m1
           in case visitSelectedContainers (checkUnrecoverable w lu m2) None
                     (selectedContainers w res) of
                Some failed \<Rightarrow> (emptyStatus\<lparr>st_Failed := Some failed\<rparr>, m2, [])
              | None \<Rightarrow>
                  (let s = syncContainers w r lu isWaitingOnTrigger m2 (selectedContainers w res);
                       status = promoteTerminated w lu s
                   in (status, ss_monitor s,
                       ss_trace s @ (if ss_updateEventDispatched s
                                     then [dispatchCompleteBuildAction lu status]
                                     else [])))))"

subsection \<open>Reconcile\<close>

definition putMonitor :: "string \<Rightarrow> monitor \<Rightarrow> reconciler \<Rightarrow> reconciler" where
  "putMonitor name m r = r\<lparr>monitors := AList.update name m (monitors r)\<rparr>"

text \<open>
  What \<^verbatim>\<open>Reconcile\<close> does with the error of a refresh of the sources, of the Kubernetes
  objects or of the Docker Compose service: not-found becomes the failed state
  \<open>ObjectNotFound\<close>, any other error is returned.
\<close>

definition refreshFailed :: "world \<Rightarrow> liveUpdate \<Rightarrow> apiError \<Rightarrow> effect list \<times> apiError option" where
  "refreshFailed w lu err =
     (if IsNotFound err
      then handleFailure w lu (createFailedState w lu reasonObjectNotFound (errorText err))
      else ([], Some err))"

text \<open>
  The end of \<^verbatim>\<open>Reconcile\<close>, from the test of the four change flags on: the sync when
  changes are pending, the status write when the status differs, and the reset of
  \<^verbatim>\<open>hasChangesToSync\<close>, which a failed status write skips.
\<close>

definition finishReconcile ::
  "world \<Rightarrow> reconciler \<Rightarrow> liveUpdate \<Rightarrow> monitor \<Rightarrow> bool
     \<Rightarrow> reconciler \<times> effect list \<times> apiError option" where
  "finishReconcile w r lu m hasChanges =
     (let m1 = (if hasChanges then m\<lparr>hasChangesToSync := True\<rparr> else m)
      in if hasChangesToSync m1
         then (case maybeSync w r lu m1 of
                 (status, m2, effects) \<Rightarrow>
                   if Status lu \<noteq> status
                   then (let update = lu\<lparr>Status := status\<rparr>
                         in case statusUpdate w update of
                              Some err \<Rightarrow>
                                (putMonitor (Name lu) m2 r, effects @ [StatusWrite update], Some err)
                            | None \<Rightarrow>
                                (putMonitor (Name lu) (m2\<lparr>hasChangesToSync := False\<rparr>) r,
                                 effects @ [StatusWrite update], None))
                   else (putMonitor (Name lu) (m2\<lparr>hasChangesToSync := False\<rparr>) r, effects, None))
         else (putMonitor (Name lu) (m1\<lparr>hasChangesToSync := False\<rparr>) r, [], None))"

text \<open>
  \<^verbatim>\<open>Reconcile\<close> for the request name \<open>reqName\<close>: the reconciler as it is left, the
  effects in order, and the error returned (\<open>None\<close> for nil).
\<close>

definition Reconcile ::
  "world \<Rightarrow> reconciler \<Rightarrow> string \<Rightarrow> reconciler \<times> effect list \<times> apiError option" where
  "Reconcile w r reqName =
     (case getLiveUpdate w of
        Inl err \<Rightarrow>
          if IsNotFound err
          then (r\<lparr>monitors := AList.delete reqName (monitors r)\<rparr>,
                [DispatchLiveUpdateDelete reqName], None)
          else (r, [], Some (OtherError (''liveupdate reconcile: '' @ errorText err)))
      | Inr lu \<Rightarrow>
          if DeletionTimestamp lu \<noteq> None
          then (r\<lparr>monitors := AList.delete reqName (monitors r)\<rparr>,
                [DispatchLiveUpdateDelete reqName], None)
          else if annotation lu AnnotationManagedBy \<noteq> []
          then (r, [DispatchLiveUpdateUpsert lu], None)
          else
            (case ensureSelectorValid w lu of
               Some invalidSelectorFailedState \<Rightarrow>
                 (case handleFailure w lu invalidSelectorFailedState of
                    (effects, err) \<Rightarrow> (r, DispatchLiveUpdateUpsert lu # effects, err))
             | None \<Rightarrow>
                 (case ensureMonitorExists r (Name lu) lu of
                    (m0, r0) \<Rightarrow>
                      (case reconcileSources w m0 of
                         (m1, Inl err) \<Rightarrow>
                           (case refreshFailed w lu err of
                              (effects, e) \<Rightarrow>
                                (putMonitor (Name lu) m1 r0, DispatchLiveUpdateUpsert lu # effects, e))
                       | (m1, Inr hasFileChanges) \<Rightarrow>
                           (case reconcileKubernetesResource w m1 of
                              (m2, Inl err) \<Rightarrow>
                                (case refreshFailed w lu err of
                                   (effects, e) \<Rightarrow>
                                     (putMonitor (Name lu) m2 r0,
                                      DispatchLiveUpdateUpsert lu # effects, e))
                            | (m2, Inr hasKubernetesChanges) \<Rightarrow>
                                (case reconcileDockerComposeService w m2 of
                                   (m3, Inl err) \<Rightarrow>
                                     (case refreshFailed w lu err of
                                        (effects, e) \<Rightarrow>
                                          (putMonitor (Name lu) m3 r0,
                                           DispatchLiveUpdateUpsert lu # effects, e))
                                 | (m3, Inr hasDockerComposeChanges) \<Rightarrow>
                                     (case reconcileTriggerQueue w m3 of
                                        (m4, Inl err) \<Rightarrow>
                                          (putMonitor (Name lu) m4 r0,
                                           [DispatchLiveUpdateUpsert lu], Some err)
                                      | (m4, Inr hasTriggerQueueChanges) \<Rightarrow>
                                          (case finishReconcile w r0 lu m4
                                                  (hasFileChanges \<or> hasKubernetesChanges
                                                     \<or> hasDockerComposeChanges
                                                     \<or> hasTriggerQueueChanges) of
                                             (r', effects, e) \<Rightarrow>
                                               (r', DispatchLiveUpdateUpsert lu # effects, e)))))))))"

subsection \<open>Notions used in the statements\<close>

text \<open>
  What garbage collection leaves of a source monitor: the files that are not older than
  the time of the current build.
\<close>

definition pruneSource :: "world \<Rightarrow> luResource \<Rightarrow> monitorSource \<Rightarrow> monitorSource" where
  "pruneSource w res src =
     src\<lparr>modTimeByPath := filter (\<lambda>(p, t). gcTimeOf w res src \<le> t) (modTimeByPath src)\<rparr>"


text \<open>
  The changed files that the pass finds for a container, and the pod name that the pass
  remembers when all containers are terminated: the first one that is not empty.
\<close>

definition filesChangedFor :: "reconciler \<Rightarrow> monitor \<Rightarrow> pod \<Rightarrow> container \<Rightarrow> string list" where
  "filesChangedFor r m p c =
     DedupedAndSorted (fst (scanSources (highWaterMarkOf r m (containerKey p c)) (sources m)))"

definition firstPodName :: "(pod \<times> container) list \<Rightarrow> string" where
  "firstPodName selected =
     (case filter (\<lambda>n. n \<noteq> []) (map (\<lambda>pc. p_Name (fst pc)) selected) of
        [] \<Rightarrow> []
      | n # _ \<Rightarrow> n)"

text \<open>A status that reports something: a failure or at least one container.\<close>

definition reported :: "liveUpdateStatus \<Rightarrow> bool" where
  "reported st \<longleftrightarrow> st_Failed st \<noteq> None \<or> st_Containers st \<noteq> []"

text \<open>
  The shape of the build events of a pass: nothing at all, or one build-started event,
  then updater calls only, then one build-complete event.
\<close>

fun isBuildStarted :: "effect \<Rightarrow> bool" where
  "isBuildStarted (DispatchBuildStarted mn files) = True"
| "isBuildStarted e = False"

fun isBuildComplete :: "effect \<Rightarrow> bool" where
  "isBuildComplete (DispatchBuildComplete mn err) = True"
| "isBuildComplete e = False"

fun isUpdateCall :: "effect \<Rightarrow> bool" where
  "isUpdateCall (CallUpdateContainer c) = True"
| "isUpdateCall e = False"

definition startedThenCalls :: "effect list \<Rightarrow> bool" where
  "startedThenCalls tr =
     (case tr of
        [] \<Rightarrow> False
      | e # rest \<Rightarrow> isBuildStarted e \<and> list_all isUpdateCall rest)"

definition buildBracket :: "effect list \<Rightarrow> bool" where
  "buildBracket tr \<longleftrightarrow>
     tr = [] \<or> (startedThenCalls (butlast tr) \<and> isBuildComplete (last tr))"

definition buildEffects :: "effect list \<Rightarrow> effect list" where
  "buildEffects tr = filter (\<lambda>e. isBuildStarted e \<or> isUpdateCall e \<or> isBuildComplete e) tr"

text \<open>The invariant of the pass: what has been emitted so far, given the dispatch flag.\<close>

definition passTrace :: "bool \<Rightarrow> effect list \<Rightarrow> bool" where
  "passTrace dispatched tr \<longleftrightarrow> (if dispatched then startedThenCalls tr else tr = [])"

text \<open>
  A watched object is recorded when the monitor holds what a fetch of it returns now: for
  a source the last file event and, with an image map, the image status; for the
  selectors the discovery, apply status, image map and Docker Compose service; for the
  trigger queue its data, where a failing fetch leaves nothing to compare.
\<close>

definition sourceRecorded :: "world \<Rightarrow> monitor \<Rightarrow> liveUpdateSource \<Rightarrow> bool" where
  "sourceRecorded w m source =
     (case (if FileWatch source \<noteq> [] then getFileWatch w (FileWatch source)
            else Inr \<lparr>FileEvents = []\<rparr>) of
        Inl err \<Rightarrow> False
      | Inr fw \<Rightarrow>
          (case (if ImageMap source \<noteq> [] then getImageMap w (ImageMap source)
                 else Inr zeroImageMap) of
             Inl err \<Rightarrow> False
           | Inr im \<Rightarrow>
               FileEvents fw = [] \<or> FileWatch source = []
               \<or> (case map_of (sources m) (FileWatch source) of
                     None \<Rightarrow> False
                   | Some src \<Rightarrow>
                       lastFileEvent src = Some (last (FileEvents fw))
                       \<and> (ImageMap source = [] \<or> lastImageStatus src = Some (im_Status im)))))"

definition kubernetesRecorded :: "world \<Rightarrow> monitor \<Rightarrow> bool" where
  "kubernetesRecorded w m =
     (case Kubernetes (Selector (spec m)) of
        None \<Rightarrow> True
      | Some selector \<Rightarrow>
          (if ApplyName selector \<noteq> []
           then (case getKubernetesApply w (ApplyName selector) of
                   Inl err \<Rightarrow> False
                 | Inr ka \<Rightarrow> lastKubernetesApplyStatus m = Some (ka_Status ka))
           else lastKubernetesApplyStatus m = None)
          \<and> (case getKubernetesDiscovery w (DiscoveryName selector) of
                Inl err \<Rightarrow> False
              | Inr kd \<Rightarrow> lastKubernetesDiscovery m = Some kd)
          \<and> (if ImageMapName selector \<noteq> []
               then (case getImageMap w (ImageMapName selector) of
                       Inl err \<Rightarrow> False
                     | Inr im \<Rightarrow> lastImageMap m = Some im)
               else lastImageMap m = None))"

definition dockerComposeRecorded :: "world \<Rightarrow> monitor \<Rightarrow> bool" where
  "dockerComposeRecorded w m =
     (case DockerCompose (Selector (spec m)) of
        None \<Rightarrow> True
      | Some selector \<Rightarrow>
          (case getDockerComposeService w (Service selector) of
             Inl err \<Rightarrow> False
           | Inr dcs \<Rightarrow> lastDockerComposeService m = Some dcs))"

definition triggerQueueRecorded :: "world \<Rightarrow> monitor \<Rightarrow> bool" where
  "triggerQueueRecorded w m =
     (case TriggerQueue w of
        Inl err \<Rightarrow> True
      | Inr queue \<Rightarrow>
          (case lastTriggerQueue m of
             None \<Rightarrow> False
           | Some lastQueue \<Rightarrow> Data queue = Data lastQueue))"

definition allRecorded :: "world \<Rightarrow> monitor \<Rightarrow> bool" where
  "allRecorded w m \<longleftrightarrow>
     list_all (sourceRecorded w m) (Sources (spec m)) \<and> kubernetesRecorded w m
     \<and> dockerComposeRecorded w m \<and> triggerQueueRecorded w m"


text \<open>
  A failed state keeps the transition time of the object's stored failure when it has the
  same reason, and carries the current time otherwise. The failed states that a list of
  effects writes are those of its status writes.
\<close>

definition keepsTransitionTime :: "world \<Rightarrow> liveUpdate \<Rightarrow> liveUpdateStateFailed \<Rightarrow> bool" where
  "keepsTransitionTime w lu f \<longleftrightarrow>
     f_LastTransitionTime f =
       (case st_Failed (Status lu) of
          Some old \<Rightarrow> if f_Reason old = f_Reason f then f_LastTransitionTime old else nowMicro w
        | None \<Rightarrow> nowMicro w)"

fun writtenFailedStates :: "effect list \<Rightarrow> liveUpdateStateFailed list" where
  "writtenFailedStates [] = []"
| "writtenFailedStates (StatusWrite u # tr) =
     (case st_Failed (Status u) of
        Some f \<Rightarrow> f # writtenFailedStates tr
      | None \<Rightarrow> writtenFailedStates tr)"
| "writtenFailedStates (e # tr) = writtenFailedStates tr"

definition failedKeeps :: "world \<Rightarrow> liveUpdate \<Rightarrow> liveUpdateStatus \<Rightarrow> bool" where
  "failedKeeps w lu st \<longleftrightarrow>
     (case st_Failed st of None \<Rightarrow> True | Some f \<Rightarrow> keepsTransitionTime w lu f)"


text \<open>
  The monitor holds a snapshot of an empty trigger queue. And the outcome of a reconcile
  that ends because an object of a refresh does not exist: the effects and the error
  returned. The failed state \<open>ObjectNotFound\<close> with the text of the error is written,
  unless the status holds exactly that failed state already; the error returned is the
  one of the status write.
\<close>

definition emptyQueueRecorded :: "monitor \<Rightarrow> bool" where
  "emptyQueueRecorded m =
     (case lastTriggerQueue m of
        Some lastQueue \<Rightarrow> Data lastQueue = []
      | None \<Rightarrow> False)"

definition objectNotFoundRecorded ::
  "world \<Rightarrow> liveUpdate \<Rightarrow> apiError \<Rightarrow> effect list \<times> apiError option" where
  "objectNotFoundRecorded w lu err =
     (let failed = createFailedState w lu ''ObjectNotFound'' (errorText err);
          update = lu\<lparr>Status := (Status lu)\<lparr>st_Failed := Some failed\<rparr>\<rparr>
      in if st_Failed (Status lu) = Some failed
         then ([DispatchLiveUpdateUpsert lu], None)
         else ([DispatchLiveUpdateUpsert lu, StatusWrite update], statusUpdate w update))"
subsection \<open>Example worlds\<close>

text \<open>
  Concrete worlds and objects, on which the theorems below are evaluated: a world in
  which no object exists, and the world of a Kubernetes live update with one file watch,
  one running pod and one changed file.
\<close>

definition quietWorld :: world where
  "quietWorld =
     \<lparr>getLiveUpdate = Inl (NotFound ''liveupdate not found''),
      getFileWatch = (\<lambda>n. Inl (NotFound (''filewatch not found: '' @ n))),
      getImageMap = (\<lambda>n. Inl (NotFound (''imagemap not found: '' @ n))),
      getKubernetesApply = (\<lambda>n. Inl (NotFound (''kubernetesapply not found: '' @ n))),
      getKubernetesDiscovery = (\<lambda>n. Inl (NotFound (''kubernetesdiscovery not found: '' @ n))),
      getDockerComposeService = (\<lambda>n. Inl (NotFound (''dockercomposeservice not found: '' @ n))),
      getTriggerQueueConfigMap = Inl (NotFound ''configmap not found''),
      statusUpdate = (\<lambda>u. None),
      nowMicro = 1000,
      InTriggerQueue = (\<lambda>cm n. n \<in> set (map snd (Data cm))),
      NewKubernetesResource =
        (\<lambda>kd ka. (Some \<lparr>kr_Discovery = kd, kr_ApplyStatus = ka,
                           kr_FilteredPods = (case kd of None \<Rightarrow> [] | Some d \<Rightarrow> kd_Status d)\<rparr>, None)),
      selectedContainers =
        (\<lambda>res. case res of
            LuK8sResource sel kr im \<Rightarrow> concat (map (\<lambda>p. map (\<lambda>c. (p, c)) (Containers p)) (kr_FilteredPods kr))
          | LuDCResource sel dcs \<Rightarrow> []),
      bestStartTime = (\<lambda>res. 0),
      NewLiveUpdatePlan =
        (\<lambda>sp files. Inr \<lparr>SyncPaths = map (\<lambda>f. (f, f)) files, NoMatchPaths = [], plan_StopPaths = []\<rparr>),
      FormatFileChangeList = concat,
      BoilRuns = (\<lambda>sp files. None),
      MissingLocalPaths = (\<lambda>files. None),
      UpdateContainer = (\<lambda>c. UpdateOK),
      DisplayName = lc_ContainerName,
      Quote = (\<lambda>str. CHR 0x22 # str @ [CHR 0x22])\<rparr>"

definition emptySpec :: liveUpdateSpec where
  "emptySpec = \<lparr>Selector = \<lparr>Kubernetes = None, DockerCompose = None\<rparr>, Sources = [],
     BasePath = [], Syncs = [], Execs = [], StopPaths = [], Restart = False\<rparr>"

definition exampleLiveUpdate :: "liveUpdateSelector \<Rightarrow> liveUpdate" where
  "exampleLiveUpdate sel = \<lparr>Name = ''lu'', Annotations = [(AnnotationManifest, ''frontend'')], DeletionTimestamp = None,
     Spec = emptySpec\<lparr>Selector := sel\<rparr>, Status = emptyStatus\<rparr>"

definition noSelector :: liveUpdateSelector where
  "noSelector = \<lparr>Kubernetes = None, DockerCompose = None\<rparr>"

definition bothSelector :: liveUpdateSelector where
  "bothSelector = \<lparr>Kubernetes = Some \<lparr>DiscoveryName = ''d'', ApplyName = [], ImageMapName = []\<rparr>,
      DockerCompose = Some \<lparr>Service = ''svc''\<rparr>\<rparr>"


definition happySelector :: liveUpdateSelector where
  "happySelector = \<lparr>Kubernetes = Some \<lparr>DiscoveryName = ''d'', ApplyName = ''a'', ImageMapName = []\<rparr>,
      DockerCompose = None\<rparr>"

definition happyLiveUpdate :: liveUpdate where
  "happyLiveUpdate = \<lparr>Name = ''lu'', Annotations = [(AnnotationManifest, ''frontend'')], DeletionTimestamp = None,
     Spec = emptySpec\<lparr>Selector := happySelector, Sources := [\<lparr>FileWatch = ''fw'', ImageMap = []\<rparr>],
               Syncs := [(''/host/src'', ''/app/src'')]\<rparr>,
     Status = emptyStatus\<rparr>"

definition runningContainer :: "string \<Rightarrow> container" where
  "runningContainer cid = \<lparr>ID = cid, c_Name = ''main'', State = \<lparr>Running = True, Waiting = None, Terminated = False\<rparr>\<rparr>"

definition runningPod :: "string \<Rightarrow> string \<Rightarrow> pod" where
  "runningPod pname cid = \<lparr>p_Name = pname, p_Namespace = ''default'', Phase = ''Running'', Containers = [runningContainer cid]\<rparr>"

definition happyWorld :: world where
  "happyWorld = quietWorld
     \<lparr>getLiveUpdate := Inr happyLiveUpdate,
      getFileWatch := (\<lambda>n. if n = ''fw'' then Inr \<lparr>FileEvents = [\<lparr>Time = 50, SeenFiles = [''/host/src/main.go'']\<rparr>]\<rparr>
                          else Inl (NotFound (''filewatch not found: '' @ n))),
      getKubernetesApply := (\<lambda>n. if n = ''a'' then Inr \<lparr>ka_ResourceVersion = ''1'', ka_Status = \<lparr>LastApplyStartTime = 20, ResultYAML = []\<rparr>\<rparr>
                          else Inl (NotFound (''kubernetesapply not found: '' @ n))),
      getKubernetesDiscovery := (\<lambda>n. if n = ''d'' then Inr \<lparr>kd_ResourceVersion = ''1'', kd_Status = [runningPod ''P'' ''cid'']\<rparr>
                          else Inl (NotFound (''kubernetesdiscovery not found: '' @ n)))\<rparr>"

definition freshReconciler :: reconciler where
  "freshReconciler = \<lparr>startedTime = 10, monitors = []\<rparr>"





text \<open>The monitor of the running pod's world once its objects have been read.\<close>

definition happyMonitor :: monitor where
  "happyMonitor =
     fst (reconcileKubernetesResource happyWorld
       (fst (reconcileSources happyWorld (newMonitor happyLiveUpdate))))"

text \<open>
  The same live update with an image map on its source; the world is given the time at
  which the image build started. The file event of the world is at time 50.
\<close>

definition imageLiveUpdate :: liveUpdate where
  "imageLiveUpdate =
     happyLiveUpdate\<lparr>Spec := (Spec happyLiveUpdate)\<lparr>Sources := [\<lparr>FileWatch = ''fw'', ImageMap = ''im''\<rparr>]\<rparr>\<rparr>"


text \<open>A monitor with three recorded files, whose image build started at time 40.\<close>

definition gcMonitor :: monitor where
  "gcMonitor = (newMonitor imageLiveUpdate)
     \<lparr>sources :=
        [(''fw'', \<lparr>modTimeByPath = [(''/host/src/old.go'', 30), (''/host/src/tie.go'', 40),
                                    (''/host/src/main.go'', 50)],
                  lastImageStatus = Some \<lparr>BuildStartTime = Some 40, Image = ''img''\<rparr>,
                  lastFileEvent = None\<rparr>)]\<rparr>"

definition exampleResource :: luResource where
  "exampleResource =
     LuK8sResource \<lparr>DiscoveryName = ''d'', ApplyName = ''a'', ImageMapName = []\<rparr>
       \<lparr>kr_Discovery = None, kr_ApplyStatus = None, kr_FilteredPods = [runningPod ''P'' ''cid'']\<rparr>
       None"

definition updatedContainer :: "string \<Rightarrow> string \<Rightarrow> luContainer" where
  "updatedContainer pname cid =
     \<lparr>lc_ContainerID = cid, lc_ContainerName = ''main'', lc_PodID = pname, lc_Namespace = ''default''\<rparr>"

text \<open>
  The world of the running pod with other pods and another updater: two replicas of which
  the first fails its run step, a pod that has completed, a pod that is starting.
\<close>

definition podsWorld :: "pod list \<Rightarrow> (luContainer \<Rightarrow> updateResult) \<Rightarrow> world" where
  "podsWorld pods updater = happyWorld
     \<lparr>getKubernetesDiscovery :=
        (\<lambda>n. if n = ''d'' then Inr \<lparr>kd_ResourceVersion = ''1'', kd_Status = pods\<rparr>
             else Inl (NotFound (''kubernetesdiscovery not found: '' @ n))),
      UpdateContainer := updater\<rparr>"

definition podsMonitor :: "pod list \<Rightarrow> monitor" where
  "podsMonitor pods =
     fst (reconcileKubernetesResource (podsWorld pods (\<lambda>c. UpdateOK))
       (fst (reconcileSources (podsWorld pods (\<lambda>c. UpdateOK)) (newMonitor happyLiveUpdate))))"

definition firstRunFails :: "luContainer \<Rightarrow> updateResult" where
  "firstRunFails c = (if lc_ContainerID c = ''cid1'' then RunStepFailure ''exit status 1'' else UpdateOK)"

definition syncedStatus :: "string \<Rightarrow> string \<Rightarrow> microTime \<Rightarrow> string \<Rightarrow> liveUpdateContainerStatus" where
  "syncedStatus pname cid t execError =
     \<lparr>cs_ContainerName = ''main'', cs_ContainerID = cid, cs_PodName = pname,
      cs_Namespace = ''default'', cs_LastFileTimeSynced = t, cs_LastExecError = execError,
      cs_Waiting = None\<rparr>"

definition succeededPod :: "string \<Rightarrow> string \<Rightarrow> pod" where
  "succeededPod pname cid = (runningPod pname cid)\<lparr>Phase := ''Succeeded''\<rparr>"

definition startingPod :: "string \<Rightarrow> string \<Rightarrow> pod" where
  "startingPod pname cid =
     \<lparr>p_Name = pname, p_Namespace = ''default'', Phase = ''Pending'',
      Containers = [\<lparr>ID = cid, c_Name = ''main'',
                     State = \<lparr>Running = False, Waiting = Some ''ContainerCreating'',
                              Terminated = False\<rparr>\<rparr>]\<rparr>"

text \<open>
  Reconcilers after a first reconcile in the world of the running pod: one whose status
  write succeeded, one whose status write failed.
\<close>

definition monitorOf :: "reconciler \<Rightarrow> string \<Rightarrow> monitor" where
  "monitorOf r name = (case map_of (monitors r) name of Some m \<Rightarrow> m | None \<Rightarrow> newMonitor happyLiveUpdate)"

definition syncedReconciler :: reconciler where
  "syncedReconciler = fst (Reconcile happyWorld freshReconciler ''lu'')"

definition pendingReconciler :: reconciler where
  "pendingReconciler =
     fst (Reconcile (happyWorld\<lparr>statusUpdate := (\<lambda>u. Some (OtherError ''conflict''))\<rparr>)
            freshReconciler ''lu'')"

text \<open>
  A live update with two sources whose image builds started at times 12 and 20, a file of
  the first source changed at time 15; and the reconciler after a first reconcile in which
  the updater and the status write both failed.
\<close>

definition twoSourceLiveUpdate :: liveUpdate where
  "twoSourceLiveUpdate =
     happyLiveUpdate\<lparr>Spec := (Spec happyLiveUpdate)\<lparr>Sources :=
       [\<lparr>FileWatch = ''fwA'', ImageMap = ''imA''\<rparr>, \<lparr>FileWatch = ''fwB'', ImageMap = ''imB''\<rparr>]\<rparr>\<rparr>"

definition twoSourceWorld :: "(luContainer \<Rightarrow> updateResult) \<Rightarrow> apiError option \<Rightarrow> world" where
  "twoSourceWorld updater writeError = happyWorld
     \<lparr>getLiveUpdate := Inr twoSourceLiveUpdate,
      getFileWatch := (\<lambda>n. if n = ''fwA'' then Inr \<lparr>FileEvents = [\<lparr>Time = 15, SeenFiles = [''/host/src/a.go'']\<rparr>]\<rparr>
                          else if n = ''fwB'' then Inr \<lparr>FileEvents = [\<lparr>Time = 5, SeenFiles = [''/host/src/b.go'']\<rparr>]\<rparr>
                          else Inl (NotFound (''filewatch not found: '' @ n))),
      getImageMap := (\<lambda>n. if n = ''imA''
                          then Inr \<lparr>im_ResourceVersion = ''1'',
                                    im_Status = \<lparr>BuildStartTime = Some 12, Image = ''imgA''\<rparr>\<rparr>
                          else if n = ''imB''
                          then Inr \<lparr>im_ResourceVersion = ''1'',
                                    im_Status = \<lparr>BuildStartTime = Some 20, Image = ''imgB''\<rparr>\<rparr>
                          else Inl (NotFound (''imagemap not found: '' @ n))),
      statusUpdate := (\<lambda>u. writeError),
      UpdateContainer := updater\<rparr>"

definition retryReconciler :: reconciler where
  "retryReconciler =
     fst (Reconcile (twoSourceWorld (\<lambda>c. UpdateError ''connection lost'') (Some (OtherError ''conflict'')))
            freshReconciler ''lu'')"

text \<open>A live update without selector whose status holds an older failure.\<close>

definition failedBefore :: "string \<Rightarrow> liveUpdate" where
  "failedBefore reason =
     (exampleLiveUpdate noSelector)\<lparr>Status := emptyStatus\<lparr>st_Failed :=
        Some \<lparr>f_Reason = reason, f_Message = ''an older message'', f_LastTransitionTime = 7\<rparr>\<rparr>\<rparr>"


text \<open>
  Worlds of the running pod in which one referenced object does not exist: the file
  watch, the image map of the source, the Kubernetes apply, the Kubernetes discovery, the
  Docker Compose service. In all of them, as in the world of the running pod, the
  ConfigMap of the trigger queue does not exist either.
\<close>

definition noFileWatchWorld :: world where
  "noFileWatchWorld = happyWorld\<lparr>getFileWatch := getFileWatch quietWorld\<rparr>"

definition noImageMapWorld :: world where
  "noImageMapWorld = happyWorld\<lparr>getLiveUpdate := Inr imageLiveUpdate\<rparr>"

definition noApplyWorld :: world where
  "noApplyWorld = happyWorld\<lparr>getKubernetesApply := getKubernetesApply quietWorld\<rparr>"

definition noDiscoveryWorld :: world where
  "noDiscoveryWorld = happyWorld\<lparr>getKubernetesDiscovery := getKubernetesDiscovery quietWorld\<rparr>"

definition composeLiveUpdate :: liveUpdate where
  "composeLiveUpdate =
     happyLiveUpdate\<lparr>Spec := (Spec happyLiveUpdate)\<lparr>Selector :=
       \<lparr>Kubernetes = None, DockerCompose = Some \<lparr>Service = ''svc''\<rparr>\<rparr>\<rparr>\<rparr>"

definition noServiceWorld :: world where
  "noServiceWorld = happyWorld\<lparr>getLiveUpdate := Inr composeLiveUpdate\<rparr>"

definition notFoundStatus :: "string \<Rightarrow> liveUpdateStatus" where
  "notFoundStatus msg =
     \<lparr>st_Failed = Some \<lparr>f_Reason = ''ObjectNotFound'', f_Message = msg, f_LastTransitionTime = 1000\<rparr>,
      st_Containers = []\<rparr>"

text \<open>
  The world of the running pod while the fetch of the trigger queue fails with an error
  other than not-found, and the reconciler after one reconcile in that world: its monitor
  has recorded the file watch and the Kubernetes objects, but no trigger queue, and no
  change is pending.
\<close>

definition brokenQueueWorld :: world where
  "brokenQueueWorld = happyWorld\<lparr>getTriggerQueueConfigMap := Inl (OtherError ''connection refused'')\<rparr>"

definition staleReconciler :: reconciler where
  "staleReconciler = fst (Reconcile brokenQueueWorld freshReconciler ''lu'')"
section \<open>Properties\<close>

subsection \<open>Consuming file events\<close>









subsection \<open>Garbage collection of file changes\<close>

lemma gcTimeOf_pruneSource: "gcTimeOf w res (pruneSource w res src) = gcTimeOf w res src"
  by (simp add: pruneSource_def gcTimeOf_def)

lemma pruneSource_idem: "pruneSource w res (pruneSource w res src) = pruneSource w res src"
  by (simp add: pruneSource_def gcTimeOf_def)

lemma not_less_filter: "(\<lambda>(p, t). \<not> t < (g::nat)) = (\<lambda>(p, t). g \<le> t)"
  by (auto simp: fun_eq_iff)

lemma garbageCollectOneSource_sources:
  "map_of (sources (garbageCollectOneSource w res s m)) k =
     (if k = FileWatch s then map_option (pruneSource w res) (map_of (sources m) k)
      else map_of (sources m) k)"
  by (auto simp: garbageCollectOneSource_def Let_def update_conv' pruneSource_def
      case_prod_unfold not_less split: option.splits)

lemma garbageCollect_fold_sources:
  "map_of (sources (fold (garbageCollectOneSource w res) ss m)) k =
     (if k \<in> FileWatch ` set ss then map_option (pruneSource w res) (map_of (sources m) k)
      else map_of (sources m) k)"
proof (induction ss arbitrary: m)
  case Nil
  then show ?case by simp
next
  case (Cons s ss)
  show ?case
    by (cases "map_of (sources m) k")
       (auto simp: Cons.IH garbageCollectOneSource_sources pruneSource_idem)
qed

subsection \<open>Watermarks\<close>









lemma adjust_failed_none [simp]:
  "st_Failed (adjustFailedStateTimestamps w lu st) = None \<longleftrightarrow> st_Failed st = None"
  by (simp add: adjustFailedStateTimestamps_def split: option.splits)



subsection \<open>The loop of applyInternal\<close>

lemma applyContainers_inconsistent:
  assumes "UpdateContainer w ok = UpdateOK"
    and "\<forall>c \<in> set before. \<forall>e. UpdateContainer w c \<noteq> UpdateError e"
    and "lastErr \<noteq> None \<or> (\<exists>c \<in> set before. \<exists>e. UpdateContainer w c = RunStepFailure e)"
  shows "map_option f_Reason
           (st_Failed (fst (applyContainers w inp lastErr result calls (before @ ok # after))))
         = Some ''PodsInconsistent''"
  using assms(2,3)
proof (induction before arbitrary: lastErr result calls)
  case Nil
  then show ?case using assms(1) by (auto simp: Let_def)
next
  case (Cons c before)
  show ?case
  proof (cases "UpdateContainer w c")
    case UpdateOK
    show ?thesis
    proof (cases lastErr)
      case None
      with Cons.prems UpdateOK
      have "\<exists>c \<in> set before. \<exists>e. UpdateContainer w c = RunStepFailure e" by auto
      then show ?thesis using Cons.IH Cons.prems(1) UpdateOK None by (simp add: Let_def)
    next
      case (Some a)
      then show ?thesis using UpdateOK by (simp add: Let_def)
    qed
  next
    case (RunStepFailure e)
    then show ?thesis using Cons.IH Cons.prems(1) by (simp add: Let_def)
  next
    case (UpdateError e)
    then show ?thesis using Cons.prems(1) by auto
  qed
qed

text \<open>
  One call of \<^verbatim>\<open>applyInternal\<close> on a list of containers reports \<open>PodsInconsistent\<close> when
  the update of a container succeeds after a run step failed in an earlier container of
  the list. A call with a single container never does, and so neither does the update of
  one container in the pass of a reconcile.
\<close>

lemma applyInternal_inconsistent:
  assumes "BoilRuns w sp (ChangedFiles inp) = None"
    and "MissingLocalPaths w (ChangedFiles inp) = None"
    and "in_Containers inp = before @ ok # after"
    and "UpdateContainer w ok = UpdateOK"
    and "\<exists>c \<in> set before. \<exists>e. UpdateContainer w c = RunStepFailure e"
    and "\<forall>c \<in> set before. \<forall>e. UpdateContainer w c \<noteq> UpdateError e"
  shows "map_option f_Reason (st_Failed (fst (applyInternal w sp inp))) = Some ''PodsInconsistent''"
  using assms applyContainers_inconsistent [of w ok before None inp emptyStatus "[]" after]
  by (simp add: applyInternal_def)

lemma applyInternal_one_container:
  "in_Containers inp = [c] \<Longrightarrow>
     map_option f_Reason (st_Failed (fst (applyInternal w sp inp))) \<noteq> Some ''PodsInconsistent''"
  by (simp add: applyInternal_def emptyStatus_def Let_def split: option.splits updateResult.splits)

lemma applyInternal_one_container_reason:
  "in_Containers inp = [c] \<Longrightarrow> st_Failed (fst (applyInternal w sp inp)) = Some z \<Longrightarrow>
     f_Reason z \<noteq> ''PodsInconsistent''"
  using applyInternal_one_container [of inp c w sp] by simp

lemma createLiveUpdatePlan_reason:
  "createLiveUpdatePlan w sp files = Inl failed \<Longrightarrow> f_Reason failed \<noteq> ''PodsInconsistent''"
  by (auto simp: createLiveUpdatePlan_def createFailedState_def Let_def
      split: sum.splits if_splits option.splits list.splits)

lemma updateOneContainer_never_inconsistent:
  "map_option f_Reason (st_Failed (fst (snd
      (updateOneContainer w lu iw d p c cStatus files newHigh))))
     \<noteq> Some ''PodsInconsistent''"
proof (cases "createLiveUpdatePlan w (Spec lu) files")
  case (Inl failed)
  then show ?thesis
    using createLiveUpdatePlan_reason [of w "Spec lu" files failed]
    by (simp add: updateOneContainer_def emptyStatus_def Let_def)
next
  case (Inr plan)
  then show ?thesis
    by (auto simp: updateOneContainer_def emptyStatus_def createFailedState_def Let_def
        case_prod_beta dest: applyInternal_one_container_reason [rotated])
qed

subsection \<open>The pass over terminated and live containers\<close>

lemma visitContainer_terminated:
  assumes "isTerminated p c"
  shows "visitContainer w r lu iw s (p, c) =
     (False,
      s\<lparr>ss_hasAnyFilesToSync := ss_hasAnyFilesToSync s \<or> filesChangedFor r (ss_monitor s) p c \<noteq> [],
        ss_terminatedContainerPodName :=
          (if ss_terminatedContainerPodName s = [] then p_Name p
           else ss_terminatedContainerPodName s)\<rparr>)"
  using assms
  by (cases "scanSources (highWaterMarkOf r (ss_monitor s) (containerKey p c)) (sources (ss_monitor s))")
     (auto simp: visitContainer_def filesChangedFor_def Let_def)

lemma firstPodName_Cons:
  "firstPodName (pc # rest) = (if p_Name (fst pc) \<noteq> [] then p_Name (fst pc) else firstPodName rest)"
  by (simp add: firstPodName_def)

lemma visit_all_terminated:
  assumes "\<forall>pc \<in> set selected. isTerminated (fst pc) (snd pc)"
  shows "visitSelectedContainers (visitContainer w r lu iw) s selected =
     s\<lparr>ss_hasAnyFilesToSync :=
          ss_hasAnyFilesToSync s
          \<or> (\<exists>pc \<in> set selected. filesChangedFor r (ss_monitor s) (fst pc) (snd pc) \<noteq> []),
        ss_terminatedContainerPodName :=
          (if ss_terminatedContainerPodName s = [] then firstPodName selected
           else ss_terminatedContainerPodName s)\<rparr>"
  using assms
proof (induction selected arbitrary: s)
  case Nil
  then show ?case by (simp add: firstPodName_def)
next
  case (Cons pc selected)
  obtain p c where pc: "pc = (p, c)" by (cases pc) auto
  have t: "isTerminated p c" using Cons.prems pc by simp
  have rest: "\<forall>pc \<in> set selected. isTerminated (fst pc) (snd pc)" using Cons.prems by simp
  show ?case
    by (simp add: pc visitContainer_terminated [OF t] Cons.IH [OF rest] firstPodName_Cons)
qed


lemma reported_append [simp]: "reported (st\<lparr>st_Containers := st_Containers st @ [c]\<rparr>)"
  by (simp add: reported_def)

lemma reported_failed [simp]: "reported (st\<lparr>st_Failed := Some f\<rparr>)"
  by (simp add: reported_def)

lemma applyContainers_keeps_reported:
  "reported result \<Longrightarrow> reported (fst (applyContainers w inp lastErr result calls cs))"
proof (induction cs arbitrary: lastErr result calls)
  case Nil
  then show ?case by simp
next
  case (Cons c cs)
  show ?case
    by (cases "UpdateContainer w c"; cases lastErr) (simp_all add: Let_def Cons.IH)
qed

lemma applyContainers_reported:
  "cs \<noteq> [] \<Longrightarrow> reported (fst (applyContainers w inp lastErr result calls cs))"
  by (cases cs; cases "UpdateContainer w (hd cs)"; cases lastErr)
     (simp_all add: Let_def applyContainers_keeps_reported)

lemma applyInternal_reported:
  "in_Containers inp \<noteq> [] \<Longrightarrow> reported (fst (applyInternal w sp inp))"
  by (simp add: applyInternal_def applyContainers_reported split: option.splits)

lemma updateOneContainer_reported:
  "reported (fst (snd (updateOneContainer w lu iw d p c cStatus files newHigh)))"
proof (cases "createLiveUpdatePlan w (Spec lu) files")
  case (Inl failed)
  then show ?thesis by (simp add: updateOneContainer_def Let_def)
next
  case (Inr plan)
  let ?inp = "\<lparr>IsDC = (DockerCompose (Selector (Spec lu)) \<noteq> None), ChangedFiles = SyncPaths plan,
               in_Containers = [\<lparr>lc_ContainerID = ID c, lc_ContainerName = c_Name c,
                                 lc_PodID = p_Name p, lc_Namespace = p_Namespace p\<rparr>],
               in_LastFileTimeSynced = newHigh\<rparr>"
  have "reported (fst (applyInternal w (Spec lu) ?inp))"
    by (rule applyInternal_reported) simp
  then show ?thesis
    using Inr
    by (auto simp: updateOneContainer_def Let_def reported_def split: prod.splits)
qed


lemma adjust_reported [simp]:
  "reported (adjustFailedStateTimestamps w lu st) = reported st"
  by (simp add: reported_def adjustFailedStateTimestamps_def split: option.splits)

lemma visitContainer_live_reported:
  assumes "\<not> isTerminated p c"
  shows "reported (ss_status (snd (visitContainer w r lu iw s (p, c))))"
proof -
  obtain scanned newHigh newLow where sc:
    "scanSources (highWaterMarkOf r (ss_monitor s) (containerKey p c)) (sources (ss_monitor s))
       = (scanned, newHigh, newLow)"
    by (cases "scanSources (highWaterMarkOf r (ss_monitor s) (containerKey p c)) (sources (ss_monitor s))") auto
  obtain filesApplied st d effects where u:
    "updateOneContainer w lu iw (ss_updateEventDispatched s) p c
       (containerStatusOf (ss_monitor s) (containerKey p c)) (DedupedAndSorted scanned) newHigh
       = (filesApplied, st, d, effects)"
    by (cases "updateOneContainer w lu iw (ss_updateEventDispatched s) p c
       (containerStatusOf (ss_monitor s) (containerKey p c)) (DedupedAndSorted scanned) newHigh") auto
  have "reported st"
    using updateOneContainer_reported [of w lu iw "ss_updateEventDispatched s" p c
        "containerStatusOf (ss_monitor s) (containerKey p c)" "DedupedAndSorted scanned" newHigh] u
    by simp
  then have "reported (adjustFailedStateTimestamps w lu st)" by simp
  then show ?thesis
    using assms sc u
    by (auto simp: visitContainer_def Let_def reported_def emptyStatus_def split: option.splits)
qed

lemma visitContainer_keeps_reported:
  assumes "reported (ss_status s)"
  shows "reported (ss_status (snd (visitContainer w r lu iw s pc)))"
proof (cases pc)
  case (Pair p c)
  show ?thesis
  proof (cases "isTerminated p c")
    case True
    then show ?thesis using assms by (simp add: Pair visitContainer_terminated)
  next
    case False
    then show ?thesis by (simp add: Pair visitContainer_live_reported)
  qed
qed

lemma visit_keeps_reported:
  "reported (ss_status s) \<Longrightarrow>
     reported (ss_status (visitSelectedContainers (visitContainer w r lu iw) s selected))"
proof (induction selected arbitrary: s)
  case Nil
  then show ?case by simp
next
  case (Cons pc selected)
  have "reported (ss_status (snd (visitContainer w r lu iw s pc)))"
    by (rule visitContainer_keeps_reported [OF Cons.prems])
  then show ?case
    by (cases "visitContainer w r lu iw s pc") (auto intro: Cons.IH)
qed

lemma visit_live_reported:
  "\<exists>pc \<in> set selected. \<not> isTerminated (fst pc) (snd pc) \<Longrightarrow>
     reported (ss_status (visitSelectedContainers (visitContainer w r lu iw) s selected))"
proof (induction selected arbitrary: s)
  case Nil
  then show ?case by simp
next
  case (Cons pc selected)
  obtain p c where pc: "pc = (p, c)" by (cases pc) auto
  show ?case
  proof (cases "isTerminated p c")
    case True
    then have "\<exists>pc \<in> set selected. \<not> isTerminated (fst pc) (snd pc)"
      using Cons.prems pc by auto
    then show ?thesis
      using True by (simp add: pc visitContainer_terminated Cons.IH)
  next
    case False
    then have "reported (ss_status (snd (visitContainer w r lu iw s pc)))"
      by (simp add: pc visitContainer_live_reported)
    then show ?thesis
      by (cases "visitContainer w r lu iw s pc") (auto intro: visit_keeps_reported)
  qed
qed

subsection \<open>Build events\<close>

lemma applyContainers_calls:
  "list_all isUpdateCall calls \<Longrightarrow>
     list_all isUpdateCall (snd (applyContainers w inp lastErr result calls cs))"
proof (induction cs arbitrary: lastErr result calls)
  case Nil
  then show ?case by simp
next
  case (Cons c cs)
  have "list_all isUpdateCall (calls @ [CallUpdateContainer c])" using Cons.prems by simp
  then show ?case
    by (cases "UpdateContainer w c"; cases lastErr) (simp_all add: Let_def Cons.IH)
qed

lemma applyInternal_calls: "list_all isUpdateCall (snd (applyInternal w sp inp))"
  by (simp add: applyInternal_def applyContainers_calls split: option.splits)

lemma startedThenCalls_Cons [simp]:
  "startedThenCalls (DispatchBuildStarted mn files # calls) = list_all isUpdateCall calls"
  by (simp add: startedThenCalls_def)

lemma startedThenCalls_Nil [simp]: "\<not> startedThenCalls []"
  by (simp add: startedThenCalls_def)

lemma startedThenCalls_append:
  "startedThenCalls tr \<Longrightarrow> list_all isUpdateCall eff \<Longrightarrow> startedThenCalls (tr @ eff)"
  by (cases tr) (simp_all add: startedThenCalls_def)

lemma updateOneContainer_trace:
  assumes "updateOneContainer w lu iw d p c cStatus files newHigh = (applied, st, d', eff)"
    and "passTrace d tr"
  shows "passTrace d' (tr @ eff)"
proof (cases "createLiveUpdatePlan w (Spec lu) files")
  case (Inl failed)
  then show ?thesis using assms by (auto simp: updateOneContainer_def Let_def)
next
  case (Inr plan)
  let ?inp = "\<lparr>IsDC = (DockerCompose (Selector (Spec lu)) \<noteq> None), ChangedFiles = SyncPaths plan,
               in_Containers = [\<lparr>lc_ContainerID = ID c, lc_ContainerName = c_Name c,
                                 lc_PodID = p_Name p, lc_Namespace = p_Namespace p\<rparr>],
               in_LastFileTimeSynced = newHigh\<rparr>"
  have calls: "list_all isUpdateCall (snd (applyInternal w (Spec lu) ?inp))"
    by (rule applyInternal_calls)
  show ?thesis
    using assms Inr calls
    by (auto simp: updateOneContainer_def Let_def passTrace_def startedThenCalls_append
        split: prod.splits if_splits)
qed

lemma visitContainer_trace:
  assumes "passTrace (ss_updateEventDispatched s) (ss_trace s)"
  shows "passTrace (ss_updateEventDispatched (snd (visitContainer w r lu iw s pc)))
           (ss_trace (snd (visitContainer w r lu iw s pc)))"
proof (cases pc)
  case (Pair p c)
  show ?thesis
  proof (cases "isTerminated p c")
    case True
    then show ?thesis using assms by (simp add: Pair visitContainer_terminated)
  next
    case False
    obtain scanned newHigh newLow where sc:
      "scanSources (highWaterMarkOf r (ss_monitor s) (containerKey p c)) (sources (ss_monitor s))
         = (scanned, newHigh, newLow)"
      by (cases "scanSources (highWaterMarkOf r (ss_monitor s) (containerKey p c)) (sources (ss_monitor s))") auto
    obtain filesApplied st d effects where u:
      "updateOneContainer w lu iw (ss_updateEventDispatched s) p c
         (containerStatusOf (ss_monitor s) (containerKey p c)) (DedupedAndSorted scanned) newHigh
         = (filesApplied, st, d, effects)"
      by (cases "updateOneContainer w lu iw (ss_updateEventDispatched s) p c
         (containerStatusOf (ss_monitor s) (containerKey p c)) (DedupedAndSorted scanned) newHigh") auto
    have "passTrace d (ss_trace s @ effects)"
      by (rule updateOneContainer_trace [OF u assms])
    then show ?thesis
      using False sc u
      by (auto simp: Pair visitContainer_def Let_def split: option.splits)
  qed
qed

lemma visit_trace:
  "passTrace (ss_updateEventDispatched s) (ss_trace s) \<Longrightarrow>
     passTrace
       (ss_updateEventDispatched (visitSelectedContainers (visitContainer w r lu iw) s selected))
       (ss_trace (visitSelectedContainers (visitContainer w r lu iw) s selected))"
proof (induction selected arbitrary: s)
  case Nil
  then show ?case by simp
next
  case (Cons pc selected)
  have "passTrace (ss_updateEventDispatched (snd (visitContainer w r lu iw s pc)))
           (ss_trace (snd (visitContainer w r lu iw s pc)))"
    by (rule visitContainer_trace [OF Cons.prems])
  then show ?case
    by (cases "visitContainer w r lu iw s pc") (auto intro: Cons.IH)
qed

lemma maybeSync_bracket: "buildBracket (snd (snd (maybeSync w r lu m)))"
proof -
  have "passTrace (ss_updateEventDispatched (syncContainers w r lu iw m' selected))
          (ss_trace (syncContainers w r lu iw m' selected))" for iw m' selected
    unfolding syncContainers_def
    by (rule visit_trace) (simp add: passTrace_def initialSyncState_def)
  then show ?thesis
    by (auto simp: maybeSync_def Let_def buildBracket_def passTrace_def dispatchCompleteBuildAction_def
        split: sum.splits option.splits if_splits)
qed

lemma startedThenCalls_buildEffects: "startedThenCalls tr \<Longrightarrow> buildEffects tr = tr"
proof -
  have "list_all isUpdateCall xs \<Longrightarrow>
      filter (\<lambda>e. isBuildStarted e \<or> isUpdateCall e \<or> isBuildComplete e) xs = xs" for xs
    by (induction xs) auto
  then show "startedThenCalls tr \<Longrightarrow> buildEffects tr = tr"
    by (cases tr) (auto simp: startedThenCalls_def buildEffects_def)
qed

lemma buildBracket_buildEffects:
  assumes "buildBracket tr"
  shows "buildEffects tr = tr"
proof (cases tr rule: rev_cases)
  case Nil
  then show ?thesis by (simp add: buildEffects_def)
next
  case (snoc xs x)
  then have "startedThenCalls xs" and "isBuildComplete x"
    using assms by (simp_all add: buildBracket_def)
  then show ?thesis
    using startedThenCalls_buildEffects [of xs] snoc by (simp add: buildEffects_def)
qed

lemma buildEffects_simps [simp]:
  "buildEffects [] = []"
  "buildEffects (DispatchLiveUpdateUpsert u # tr) = buildEffects tr"
  "buildEffects (DispatchLiveUpdateDelete n # tr) = buildEffects tr"
  "buildEffects (StatusWrite u # tr) = buildEffects tr"
  "buildEffects (tr @ tr') = buildEffects tr @ buildEffects tr'"
  by (simp_all add: buildEffects_def)

lemma handleFailure_buildEffects: "buildEffects (fst (handleFailure w lu f)) = []"
  by (simp add: handleFailure_def Let_def)

lemma refreshFailed_buildEffects: "buildEffects (fst (refreshFailed w lu err)) = []"
  by (simp add: refreshFailed_def handleFailure_buildEffects)

lemma finishReconcile_bracket:
  "buildBracket (buildEffects (fst (snd (finishReconcile w r lu m changes))))"
proof (cases "changes \<or> hasChangesToSync m")
  case False
  then show ?thesis by (simp add: finishReconcile_def Let_def buildBracket_def)
next
  case True
  let ?m1 = "if changes then m\<lparr>hasChangesToSync := True\<rparr> else m"
  obtain status m2 effects where ms: "maybeSync w r lu ?m1 = (status, m2, effects)"
    by (cases "maybeSync w r lu ?m1") auto
  have b: "buildBracket effects" using maybeSync_bracket [of w r lu ?m1] ms by simp
  then have e: "buildEffects effects = effects" by (rule buildBracket_buildEffects)
  have "buildEffects (fst (snd (finishReconcile w r lu m changes))) = effects"
    using True ms e
    by (auto simp: finishReconcile_def Let_def split: option.splits)
  then show ?thesis using b by simp
qed

lemma Reconcile_bracket: "buildBracket (buildEffects (fst (snd (Reconcile w r reqName))))"
proof -
  have nil: "buildBracket []" by (simp add: buildBracket_def)
  have fin: "buildBracket (buildEffects (fst (snd (finishReconcile w r0 lu m c))))" for r0 lu m c
    by (rule finishReconcile_bracket)
  show ?thesis
    by (simp add: Reconcile_def case_prod_beta nil fin handleFailure_buildEffects
        refreshFailed_buildEffects split: sum.splits option.splits)
qed

subsection \<open>Refreshing a monitor that has recorded everything\<close>

lemma reconcileOneSource_recorded:
  "sourceRecorded w m source \<Longrightarrow> reconcileOneSource w m source = (m, Inr False)"
  by (auto simp: sourceRecorded_def reconcileOneSource_def Let_def update_triv
      split: sum.splits option.splits if_splits)

lemma reconcileSourcesLoop_recorded:
  "list_all (sourceRecorded w m) ss \<Longrightarrow> reconcileSourcesLoop w m c ss = (m, Inr c)"
  by (induction ss arbitrary: c) (simp_all add: reconcileOneSource_recorded)

lemma reconcileSources_recorded:
  "list_all (sourceRecorded w m) (Sources (spec m)) \<Longrightarrow> reconcileSources w m = (m, Inr False)"
  by (simp add: reconcileSources_def reconcileSourcesLoop_recorded)

lemma monitor_kubernetes_same:
  "lastKubernetesApplyStatus m = a \<Longrightarrow> lastKubernetesDiscovery m = b \<Longrightarrow> lastImageMap m = c \<Longrightarrow>
     m\<lparr>lastKubernetesApplyStatus := a, lastKubernetesDiscovery := b, lastImageMap := c\<rparr> = m"
  by simp

lemma reconcileKubernetesResource_recorded:
  assumes "kubernetesRecorded w m"
  shows "reconcileKubernetesResource w m = (m, Inr False)"
proof (cases "Kubernetes (Selector (spec m))")
  case None
  then show ?thesis by (simp add: reconcileKubernetesResource_def)
next
  case (Some sel)
  from assms Some obtain kd where kd: "getKubernetesDiscovery w (DiscoveryName sel) = Inr kd"
    "lastKubernetesDiscovery m = Some kd"
    by (auto simp: kubernetesRecorded_def split: sum.splits)
  show ?thesis
  proof (cases "ApplyName sel = []")
    case True
    note noApply = this
    from assms Some True have a: "lastKubernetesApplyStatus m = None"
      by (simp add: kubernetesRecorded_def)
    show ?thesis
    proof (cases "ImageMapName sel = []")
      case True
      from assms Some True have i: "lastImageMap m = None"
        by (simp add: kubernetesRecorded_def)
      show ?thesis
        using Some kd noApply True a i
        by (simp add: reconcileKubernetesResource_def monitor_kubernetes_same)
    next
      case False
      from assms Some False obtain im where im: "getImageMap w (ImageMapName sel) = Inr im"
        "lastImageMap m = Some im"
        by (auto simp: kubernetesRecorded_def split: sum.splits)
      show ?thesis
        using Some kd noApply False a im
        by (simp add: reconcileKubernetesResource_def monitor_kubernetes_same)
    qed
  next
    case False
    note withApply = this
    from assms Some False obtain ka where ka: "getKubernetesApply w (ApplyName sel) = Inr ka"
      "lastKubernetesApplyStatus m = Some (ka_Status ka)"
      by (auto simp: kubernetesRecorded_def split: sum.splits)
    show ?thesis
    proof (cases "ImageMapName sel = []")
      case True
      from assms Some True have i: "lastImageMap m = None"
        by (simp add: kubernetesRecorded_def)
      show ?thesis
        using Some kd withApply True ka i
        by (simp add: reconcileKubernetesResource_def monitor_kubernetes_same)
    next
      case False
      from assms Some False obtain im where im: "getImageMap w (ImageMapName sel) = Inr im"
        "lastImageMap m = Some im"
        by (auto simp: kubernetesRecorded_def split: sum.splits)
      show ?thesis
        using Some kd withApply False ka im
        by (simp add: reconcileKubernetesResource_def monitor_kubernetes_same)
    qed
  qed
qed

lemma reconcileDockerComposeService_recorded:
  "dockerComposeRecorded w m \<Longrightarrow> reconcileDockerComposeService w m = (m, Inr False)"
  by (auto simp: dockerComposeRecorded_def reconcileDockerComposeService_def Let_def
      split: sum.splits option.splits)

lemma reconcileTriggerQueue_recorded:
  "triggerQueueRecorded w m \<Longrightarrow>
     fst (reconcileTriggerQueue w m) = m
     \<and> (\<forall>c. snd (reconcileTriggerQueue w m) = Inr c \<longrightarrow> \<not> c)"
  by (auto simp: triggerQueueRecorded_def reconcileTriggerQueue_def
      split: sum.splits option.splits)

lemma putMonitor_same:
  "map_of (monitors r) name = Some m \<Longrightarrow> putMonitor name m r = r"
  by (simp add: putMonitor_def update_triv)

lemma finishReconcile_idle:
  assumes "map_of (monitors r) (Name lu) = Some m" and "\<not> hasChangesToSync m"
  shows "finishReconcile w r lu m False = (r, [], None)"
  using assms by (simp add: finishReconcile_def putMonitor_same)

subsection \<open>Watermarks across garbage collection\<close>

lemma clearOldFailure_watermark [simp]:
  "lastFileTimeSynced (clearOldFailure g c) = lastFileTimeSynced c"
  by (simp add: clearOldFailure_def)







subsection \<open>A missing object of a refresh\<close>

text \<open>
  The trigger queue of a world without its ConfigMap is empty, and its refresh records
  the empty queue.
\<close>

lemma TriggerQueue_missing:
  "getTriggerQueueConfigMap w = Inl err \<Longrightarrow> IsNotFound err \<Longrightarrow>
     TriggerQueue w = Inr emptyConfigMap"
  by (simp add: TriggerQueue_def)

lemma reconcileTriggerQueue_missing:
  assumes "getTriggerQueueConfigMap w = Inl err" and "IsNotFound err"
  shows "reconcileTriggerQueue w m =
     (if emptyQueueRecorded m then (m, Inr False)
      else (m\<lparr>lastTriggerQueue := Some emptyConfigMap\<rparr>, Inr True))"
  using TriggerQueue_missing [OF assms]
  by (simp add: reconcileTriggerQueue_def emptyQueueRecorded_def emptyConfigMap_def
      split: option.splits)

text \<open>Each of the other refreshes returns the error of the first fetch that fails.\<close>

lemma reconcileOneSource_no_fileWatch:
  "FileWatch s \<noteq> [] \<Longrightarrow> getFileWatch w (FileWatch s) = Inl e \<Longrightarrow>
     reconcileOneSource w m s = (m, Inl e)"
  by (simp add: reconcileOneSource_def Let_def)

lemma reconcileOneSource_no_imageMap:
  "FileWatch s = [] \<or> getFileWatch w (FileWatch s) = Inr fw \<Longrightarrow> ImageMap s \<noteq> [] \<Longrightarrow>
     getImageMap w (ImageMap s) = Inl e \<Longrightarrow> reconcileOneSource w m s = (m, Inl e)"
  by (auto simp: reconcileOneSource_def Let_def)

lemma reconcileKubernetesResource_no_apply:
  "Kubernetes (Selector (spec m)) = Some k \<Longrightarrow> ApplyName k \<noteq> [] \<Longrightarrow>
     getKubernetesApply w (ApplyName k) = Inl e \<Longrightarrow> reconcileKubernetesResource w m = (m, Inl e)"
  by (simp add: reconcileKubernetesResource_def Let_def)

lemma reconcileKubernetesResource_no_discovery:
  "Kubernetes (Selector (spec m)) = Some k \<Longrightarrow>
     ApplyName k = [] \<or> getKubernetesApply w (ApplyName k) = Inr ka \<Longrightarrow>
     getKubernetesDiscovery w (DiscoveryName k) = Inl e \<Longrightarrow>
     reconcileKubernetesResource w m = (m, Inl e)"
  by (auto simp: reconcileKubernetesResource_def Let_def)

lemma reconcileKubernetesResource_no_imageMap:
  "Kubernetes (Selector (spec m)) = Some k \<Longrightarrow>
     ApplyName k = [] \<or> getKubernetesApply w (ApplyName k) = Inr ka \<Longrightarrow>
     getKubernetesDiscovery w (DiscoveryName k) = Inr kd \<Longrightarrow>
     ImageMapName k \<noteq> [] \<Longrightarrow> getImageMap w (ImageMapName k) = Inl e \<Longrightarrow>
     reconcileKubernetesResource w m = (m, Inl e)"
  by (auto simp: reconcileKubernetesResource_def Let_def)

lemma reconcileDockerComposeService_no_service:
  "DockerCompose (Selector (spec m)) = Some d \<Longrightarrow>
     getDockerComposeService w (Service d) = Inl e \<Longrightarrow>
     reconcileDockerComposeService w m = (m, Inl e)"
  by (simp add: reconcileDockerComposeService_def Let_def)

lemma reconcileSourcesLoop_append:
  "reconcileSourcesLoop w m h pre = (mp, Inr hp) \<Longrightarrow>
     reconcileSourcesLoop w m h (pre @ ss) = reconcileSourcesLoop w mp hp ss"
proof (induction pre arbitrary: m h)
  case Nil
  then show ?case by simp
next
  case (Cons s pre)
  obtain m' res where one: "reconcileOneSource w m s = (m', res)"
    by (cases "reconcileOneSource w m s")
  show ?case
  proof (cases res)
    case (Inl err)
    with one Cons.prems show ?thesis by simp
  next
    case (Inr oneChange)
    with one Cons.prems have "reconcileSourcesLoop w m' (h \<or> oneChange) pre = (mp, Inr hp)"
      by simp
    from Cons.IH [OF this] one Inr show ?thesis by simp
  qed
qed

lemma reconcileSources_fails:
  assumes "Sources (spec m) = pre @ s # post"
    and "reconcileSourcesLoop w m False pre = (mp, Inr hp)"
    and "reconcileOneSource w mp s = (m', Inl e)"
  shows "reconcileSources w m = (m', Inl e)"
  using assms(1,3) reconcileSourcesLoop_append [OF assms(2), of "s # post"]
  by (simp add: reconcileSources_def)

text \<open>
  A reconcile whose refresh of the sources, of the Kubernetes objects or of the Docker
  Compose service ends with a not-found error writes the failed state \<open>ObjectNotFound\<close>
  (unless the status holds it already) and stops.
\<close>

lemma refreshFailed_recorded:
  "IsNotFound err \<Longrightarrow>
     (DispatchLiveUpdateUpsert lu # fst (refreshFailed w lu err), snd (refreshFailed w lu err))
       = objectNotFoundRecorded w lu err"
  by (simp add: refreshFailed_def handleFailure_def objectNotFoundRecorded_def
      reasonObjectNotFound_def Let_def)

lemma Reconcile_sources_not_found:
  assumes "getLiveUpdate w = Inr lu" and "DeletionTimestamp lu = None"
    and "annotation lu AnnotationManagedBy = []" and "ensureSelectorValid w lu = None"
    and "ensureMonitorExists r (Name lu) lu = (m0, r0)"
    and "reconcileSources w m0 = (m1, Inl e)" and "IsNotFound e"
  shows "snd (Reconcile w r reqName) = objectNotFoundRecorded w lu e"
  using assms(1-6) refreshFailed_recorded [OF assms(7), of lu w]
  by (simp add: Reconcile_def case_prod_beta)

lemma Reconcile_kubernetes_not_found:
  assumes "getLiveUpdate w = Inr lu" and "DeletionTimestamp lu = None"
    and "annotation lu AnnotationManagedBy = []" and "ensureSelectorValid w lu = None"
    and "ensureMonitorExists r (Name lu) lu = (m0, r0)"
    and "reconcileSources w m0 = (m1, Inr a)"
    and "reconcileKubernetesResource w m1 = (m2, Inl e)" and "IsNotFound e"
  shows "snd (Reconcile w r reqName) = objectNotFoundRecorded w lu e"
  using assms(1-7) refreshFailed_recorded [OF assms(8), of lu w]
  by (simp add: Reconcile_def case_prod_beta)

lemma Reconcile_dockerCompose_not_found:
  assumes "getLiveUpdate w = Inr lu" and "DeletionTimestamp lu = None"
    and "annotation lu AnnotationManagedBy = []" and "ensureSelectorValid w lu = None"
    and "ensureMonitorExists r (Name lu) lu = (m0, r0)"
    and "reconcileSources w m0 = (m1, Inr a)"
    and "reconcileKubernetesResource w m1 = (m2, Inr b)"
    and "reconcileDockerComposeService w m2 = (m3, Inl e)" and "IsNotFound e"
  shows "snd (Reconcile w r reqName) = objectNotFoundRecorded w lu e"
  using assms(1-8) refreshFailed_recorded [OF assms(9), of lu w]
  by (simp add: Reconcile_def case_prod_beta)

subsection \<open>Transition times of the failed states written\<close>

lemma createFailedState_keeps [simp]:
  "keepsTransitionTime w lu (createFailedState w lu reason msg)"
  by (simp add: keepsTransitionTime_def createFailedState_def Let_def split: option.splits)

lemma adjust_keeps [simp]: "failedKeeps w lu (adjustFailedStateTimestamps w lu st)"
  by (simp add: failedKeeps_def adjustFailedStateTimestamps_def split: option.splits)

lemma visitContainer_status:
  "ss_status (snd (visitContainer w r lu iw s (p, cInfo))) =
     (if isTerminated p cInfo then ss_status s
      else (case scanSources (highWaterMarkOf r (ss_monitor s) (containerKey p cInfo))
                  (sources (ss_monitor s)) of
              (scanned, newHigh, newLow) \<Rightarrow>
                (case updateOneContainer w lu iw (ss_updateEventDispatched s) p cInfo
                        (containerStatusOf (ss_monitor s) (containerKey p cInfo))
                        (DedupedAndSorted scanned) newHigh of
                   (filesApplied, st, d, effects) \<Rightarrow>
                     (case st_Failed (adjustFailedStateTimestamps w lu st) of
                        Some failed \<Rightarrow> emptyStatus\<lparr>st_Failed := Some failed\<rparr>
                      | None \<Rightarrow>
                          (ss_status s)\<lparr>st_Containers := st_Containers (ss_status s)
                            @ st_Containers (adjustFailedStateTimestamps w lu st)\<rparr>))))"
  by (auto simp: visitContainer_def Let_def adjustFailedStateTimestamps_def
      split: prod.splits option.splits)

lemma visitContainer_keeps_failed:
  assumes "failedKeeps w lu (ss_status s)"
  shows "failedKeeps w lu (ss_status (snd (visitContainer w r lu iw s pc)))"
proof (cases pc)
  case (Pair p c)
  have a: "keepsTransitionTime w lu f"
    if "st_Failed (adjustFailedStateTimestamps w lu st) = Some f" for st f
    using adjust_keeps [of w lu st] that by (simp add: failedKeeps_def)
  show ?thesis
    using assms a
    by (auto simp: Pair visitContainer_status failedKeeps_def emptyStatus_def
        split: prod.splits option.splits)
qed

lemma visit_keeps_failed:
  "failedKeeps w lu (ss_status s) \<Longrightarrow>
     failedKeeps w lu (ss_status (visitSelectedContainers (visitContainer w r lu iw) s selected))"
proof (induction selected arbitrary: s)
  case Nil
  then show ?case by simp
next
  case (Cons pc selected)
  have "failedKeeps w lu (ss_status (snd (visitContainer w r lu iw s pc)))"
    by (rule visitContainer_keeps_failed [OF Cons.prems])
  then show ?case
    by (cases "visitContainer w r lu iw s pc") (auto intro: Cons.IH)
qed

lemma checkUnrecoverable_step:
  assumes "case acc of None \<Rightarrow> True | Some f \<Rightarrow> keepsTransitionTime w lu f"
  shows "case snd (checkUnrecoverable w lu m acc pc) of
           None \<Rightarrow> True
         | Some f \<Rightarrow> keepsTransitionTime w lu f"
  using assms by (cases pc) (auto simp: checkUnrecoverable_def split: option.splits)

lemma checkUnrecoverable_keeps:
  "(case acc of None \<Rightarrow> True | Some f \<Rightarrow> keepsTransitionTime w lu f) \<Longrightarrow>
     (case visitSelectedContainers (checkUnrecoverable w lu m) acc selected of
        None \<Rightarrow> True
      | Some f \<Rightarrow> keepsTransitionTime w lu f)"
proof (induction selected arbitrary: acc)
  case Nil
  then show ?case by simp
next
  case (Cons pc selected)
  obtain stop acc' where c: "checkUnrecoverable w lu m acc pc = (stop, acc')"
    by (cases "checkUnrecoverable w lu m acc pc") auto
  have k: "case acc' of None \<Rightarrow> True | Some f \<Rightarrow> keepsTransitionTime w lu f"
    using checkUnrecoverable_step [OF Cons.prems, of m pc] c by simp
  show ?case
  proof (cases stop)
    case True
    then show ?thesis using c k by simp
  next
    case False
    then show ?thesis using c Cons.IH [OF k] by simp
  qed
qed

lemma maybeSync_keeps: "failedKeeps w lu (fst (maybeSync w r lu m))"
proof -
  have pass: "failedKeeps w lu (ss_status (syncContainers w r lu iw m' selected))" for iw m' selected
    unfolding syncContainers_def
    by (rule visit_keeps_failed) (simp add: failedKeeps_def initialSyncState_def emptyStatus_def)
  have promote: "failedKeeps w lu (promoteTerminated w lu s)" if "failedKeeps w lu (ss_status s)" for s
    using that by (simp add: promoteTerminated_def failedKeeps_def)
  have pre: "(case visitSelectedContainers (checkUnrecoverable w lu m') None selected of
        None \<Rightarrow> True
      | Some f \<Rightarrow> keepsTransitionTime w lu f)" for m' selected
    by (rule checkUnrecoverable_keeps) simp
  show ?thesis
  proof (cases "resource w lu m")
    case (Inl err)
    then show ?thesis by (simp add: maybeSync_def failedKeeps_def emptyStatus_def)
  next
    case (Inr res)
    let ?m2 = "garbageCollectMonitorContainers w res (garbageCollectFileChanges w res m)"
    show ?thesis
    proof (cases "visitSelectedContainers (checkUnrecoverable w lu ?m2) None (selectedContainers w res)")
      case None
      then show ?thesis
        using Inr promote [OF pass] by (simp add: maybeSync_def Let_def)
    next
      case (Some f)
      then show ?thesis
        using Inr pre [of ?m2 "selectedContainers w res"]
        by (simp add: maybeSync_def Let_def failedKeeps_def emptyStatus_def)
    qed
  qed
qed

lemma writtenFailedStates_append [simp]:
  "writtenFailedStates (tr @ tr') = writtenFailedStates tr @ writtenFailedStates tr'"
  by (induction tr rule: writtenFailedStates.induct) (auto split: option.splits)

lemma writtenFailedStates_build:
  "list_all (\<lambda>e. isBuildStarted e \<or> isUpdateCall e \<or> isBuildComplete e) tr \<Longrightarrow>
     writtenFailedStates tr = []"
  by (induction tr rule: writtenFailedStates.induct) auto

lemma maybeSync_writes_nothing: "writtenFailedStates (snd (snd (maybeSync w r lu m))) = []"
proof -
  have "buildEffects (snd (snd (maybeSync w r lu m))) = snd (snd (maybeSync w r lu m))"
    by (rule buildBracket_buildEffects [OF maybeSync_bracket])
  then have "list_all (\<lambda>e. isBuildStarted e \<or> isUpdateCall e \<or> isBuildComplete e)
      (snd (snd (maybeSync w r lu m)))"
    by (simp add: buildEffects_def filter_id_conv list_all_iff)
  then show ?thesis by (rule writtenFailedStates_build)
qed

lemma handleFailure_keeps:
  "keepsTransitionTime w lu f \<Longrightarrow>
     list_all (keepsTransitionTime w lu) (writtenFailedStates (fst (handleFailure w lu f)))"
  by (simp add: handleFailure_def Let_def)

lemma refreshFailed_keeps:
  "list_all (keepsTransitionTime w lu) (writtenFailedStates (fst (refreshFailed w lu err)))"
  by (simp add: refreshFailed_def handleFailure_keeps)

lemma finishReconcile_keeps:
  "list_all (keepsTransitionTime w lu) (writtenFailedStates (fst (snd (finishReconcile w r lu m c))))"
proof (cases "c \<or> hasChangesToSync m")
  case False
  then show ?thesis by (simp add: finishReconcile_def Let_def)
next
  case True
  let ?m1 = "if c then m\<lparr>hasChangesToSync := True\<rparr> else m"
  obtain status m2 effects where ms: "maybeSync w r lu ?m1 = (status, m2, effects)"
    by (cases "maybeSync w r lu ?m1") auto
  have k: "failedKeeps w lu status" using maybeSync_keeps [of w lu r ?m1] ms by simp
  have n: "writtenFailedStates effects = []" using maybeSync_writes_nothing [of w r lu ?m1] ms by simp
  show ?thesis
    using True ms k n
    by (auto simp: finishReconcile_def Let_def failedKeeps_def split: option.splits)
qed

lemma Reconcile_keeps:
  assumes "getLiveUpdate w = Inr lu"
  shows "list_all (keepsTransitionTime w lu) (writtenFailedStates (fst (snd (Reconcile w r reqName))))"
proof -
  have v: "ensureSelectorValid w lu = Some f \<Longrightarrow> keepsTransitionTime w lu f" for f
    by (auto simp: ensureSelectorValid_def split: option.splits if_splits)
  show ?thesis
    using assms v
    by (simp add: Reconcile_def case_prod_beta handleFailure_keeps refreshFailed_keeps
        finishReconcile_keeps split: sum.splits option.splits)
qed

text \<open>
  C8. Every failed state is built by \<open>createFailedState\<close> (directly, or through
  \<open>adjustFailedStateTimestamps\<close>, which rebuilds the failed state of a status with it).
  If the object's stored \<open>status.failed\<close> has the same reason as the new failure, the new
  failed state carries the stored \<open>lastTransitionTime\<close>, whatever the two messages are;
  if the reason differs or nothing was stored, \<open>lastTransitionTime\<close> is the current time.
  The reason and the message are the ones asked for. Every failed state that a reconcile
  writes to the status of the object it fetched has its transition time set that way.
\<close>

theorem createFailedState_transition_time:
  "f_LastTransitionTime (createFailedState w obj reason msg) =
     (case st_Failed (Status obj) of
        Some old \<Rightarrow> if f_Reason old = reason then f_LastTransitionTime old else nowMicro w
      | None \<Rightarrow> nowMicro w)
   \<and> f_Reason (createFailedState w obj reason msg) = reason
   \<and> f_Message (createFailedState w obj reason msg) = msg
   \<and> st_Failed (adjustFailedStateTimestamps w obj (newStatus\<lparr>st_Failed := Some f\<rparr>))
        = Some (createFailedState w obj (f_Reason f) (f_Message f))
   \<and> (getLiveUpdate w = Inr obj \<longrightarrow>
        list_all (keepsTransitionTime w obj)
          (writtenFailedStates (fst (snd (Reconcile w r reqName)))))"
  using Reconcile_keeps [of w obj r reqName]
  by (simp add: createFailedState_def adjustFailedStateTimestamps_def Let_def
      split: option.splits)

text \<open>
  The theorem at two reconciles of a live update without selector: the stored failure has
  the reason \<open>Invalid\<close> and the time 7 is kept under the new message; the stored failure has
  another reason and the time is the current one, 1000.
\<close>

theorem createFailedState_transition_time_witness:
  "getLiveUpdate (quietWorld\<lparr>getLiveUpdate := Inr (failedBefore ''Invalid'')\<rparr>)
     = Inr (failedBefore ''Invalid'')
   \<and> writtenFailedStates (fst (snd (Reconcile
        (quietWorld\<lparr>getLiveUpdate := Inr (failedBefore ''Invalid'')\<rparr>) freshReconciler ''lu'')))
     = [\<lparr>f_Reason = ''Invalid'', f_Message = ''No valid selector'', f_LastTransitionTime = 7\<rparr>]
   \<and> keepsTransitionTime (quietWorld\<lparr>getLiveUpdate := Inr (failedBefore ''Invalid'')\<rparr>)
        (failedBefore ''Invalid'')
        \<lparr>f_Reason = ''Invalid'', f_Message = ''No valid selector'', f_LastTransitionTime = 7\<rparr>
   \<and> writtenFailedStates (fst (snd (Reconcile
        (quietWorld\<lparr>getLiveUpdate := Inr (failedBefore ''ObjectNotFound'')\<rparr>) freshReconciler ''lu'')))
     = [\<lparr>f_Reason = ''Invalid'', f_Message = ''No valid selector'', f_LastTransitionTime = 1000\<rparr>]
   \<and> keepsTransitionTime (quietWorld\<lparr>getLiveUpdate := Inr (failedBefore ''ObjectNotFound'')\<rparr>)
        (failedBefore ''ObjectNotFound'')
        \<lparr>f_Reason = ''Invalid'', f_Message = ''No valid selector'', f_LastTransitionTime = 1000\<rparr>"
proof -
  let ?w1 = "quietWorld\<lparr>getLiveUpdate := Inr (failedBefore ''Invalid'')\<rparr>"
  let ?w2 = "quietWorld\<lparr>getLiveUpdate := Inr (failedBefore ''ObjectNotFound'')\<rparr>"
  have g1: "getLiveUpdate ?w1 = Inr (failedBefore ''Invalid'')" by simp
  have g2: "getLiveUpdate ?w2 = Inr (failedBefore ''ObjectNotFound'')" by simp
  have e1: "writtenFailedStates (fst (snd (Reconcile ?w1 freshReconciler ''lu'')))
     = [\<lparr>f_Reason = ''Invalid'', f_Message = ''No valid selector'', f_LastTransitionTime = 7\<rparr>]"
    by code_simp
  have e2: "writtenFailedStates (fst (snd (Reconcile ?w2 freshReconciler ''lu'')))
     = [\<lparr>f_Reason = ''Invalid'', f_Message = ''No valid selector'', f_LastTransitionTime = 1000\<rparr>]"
    by code_simp
  from createFailedState_transition_time [of ?w1 "failedBefore ''Invalid''" _ _ _ _ freshReconciler "''lu''"]
    createFailedState_transition_time [of ?w2 "failedBefore ''ObjectNotFound''" _ _ _ _ freshReconciler "''lu''"]
    g1 g2 e1 e2
  show ?thesis by simp
qed

text \<open>
  C2 (as amended). In a reconcile that reaches the selector check (the object exists,
  is not being deleted and is not managed elsewhere): a selector with neither family
  fails validation with reason \<open>Invalid\<close>, and the reconcile writes that failed state to
  the status unless the status already holds exactly it. A selector whose Kubernetes
  family is set is judged by that family alone, whether or not the Docker Compose family
  is set as well: it is invalid exactly when \<open>DiscoveryName\<close> is empty.
\<close>

theorem selector_validation:
  assumes "getLiveUpdate w = Inr lu" and "DeletionTimestamp lu = None"
    and "annotation lu AnnotationManagedBy = []"
  shows "(Kubernetes (Selector (Spec lu)) = None \<and> DockerCompose (Selector (Spec lu)) = None \<longrightarrow>
           ensureSelectorValid w lu = Some (createFailedState w lu ''Invalid'' ''No valid selector'')
           \<and> f_Reason (createFailedState w lu ''Invalid'' ''No valid selector'') = ''Invalid''
           \<and> fst (snd (Reconcile w r reqName)) =
               DispatchLiveUpdateUpsert lu
                 # (if st_Failed (Status lu)
                        = Some (createFailedState w lu ''Invalid'' ''No valid selector'')
                    then []
                    else [StatusWrite (lu\<lparr>Status := (Status lu)\<lparr>st_Failed :=
                            Some (createFailedState w lu ''Invalid'' ''No valid selector'')\<rparr>\<rparr>)]))
       \<and> (\<forall>k. Kubernetes (Selector (Spec lu)) = Some k \<longrightarrow>
            ensureSelectorValid w lu =
              (if DiscoveryName k = []
               then Some (createFailedState w lu ''Invalid'' ''Kubernetes selector requires DiscoveryName'')
               else None))"
  using assms
  by (auto simp: ensureSelectorValid_def Reconcile_def handleFailure_def createFailedState_def Let_def
      split: prod.splits option.splits)

text \<open>
  The theorem at a live update without selector (validation fails, the \<open>Invalid\<close> state
  is written) and at one with both families (validation passes).
\<close>

theorem selector_validation_witness:
  "getLiveUpdate (quietWorld\<lparr>getLiveUpdate := Inr (exampleLiveUpdate noSelector)\<rparr>)
     = Inr (exampleLiveUpdate noSelector)
   \<and> ensureSelectorValid (quietWorld\<lparr>getLiveUpdate := Inr (exampleLiveUpdate noSelector)\<rparr>)
        (exampleLiveUpdate noSelector)
     = Some \<lparr>f_Reason = ''Invalid'', f_Message = ''No valid selector'', f_LastTransitionTime = 1000\<rparr>
   \<and> fst (snd (Reconcile (quietWorld\<lparr>getLiveUpdate := Inr (exampleLiveUpdate noSelector)\<rparr>)
                   freshReconciler ''lu''))
     = [DispatchLiveUpdateUpsert (exampleLiveUpdate noSelector),
        StatusWrite ((exampleLiveUpdate noSelector)\<lparr>Status := emptyStatus\<lparr>st_Failed :=
          Some \<lparr>f_Reason = ''Invalid'', f_Message = ''No valid selector'',
                f_LastTransitionTime = 1000\<rparr>\<rparr>\<rparr>)]
   \<and> ensureSelectorValid (quietWorld\<lparr>getLiveUpdate := Inr (exampleLiveUpdate bothSelector)\<rparr>)
        (exampleLiveUpdate bothSelector) = None"
proof -
  let ?w = "quietWorld\<lparr>getLiveUpdate := Inr (exampleLiveUpdate noSelector)\<rparr>"
  let ?w2 = "quietWorld\<lparr>getLiveUpdate := Inr (exampleLiveUpdate bothSelector)\<rparr>"
  have a1: "getLiveUpdate ?w = Inr (exampleLiveUpdate noSelector)" by simp
  have a2: "DeletionTimestamp (exampleLiveUpdate noSelector) = None" by code_simp
  have a3: "annotation (exampleLiveUpdate noSelector) AnnotationManagedBy = []" by code_simp
  have n1: "Kubernetes (Selector (Spec (exampleLiveUpdate noSelector))) = None" by code_simp
  have n2: "DockerCompose (Selector (Spec (exampleLiveUpdate noSelector))) = None" by code_simp
  have c: "createFailedState ?w (exampleLiveUpdate noSelector) ''Invalid'' ''No valid selector''
      = \<lparr>f_Reason = ''Invalid'', f_Message = ''No valid selector'', f_LastTransitionTime = 1000\<rparr>"
    by code_simp
  have s: "Status (exampleLiveUpdate noSelector) = emptyStatus" by code_simp
  have b1: "getLiveUpdate ?w2 = Inr (exampleLiveUpdate bothSelector)" by simp
  have b2: "DeletionTimestamp (exampleLiveUpdate bothSelector) = None" by code_simp
  have b3: "annotation (exampleLiveUpdate bothSelector) AnnotationManagedBy = []" by code_simp
  have b4: "Kubernetes (Selector (Spec (exampleLiveUpdate bothSelector)))
      = Some \<lparr>DiscoveryName = ''d'', ApplyName = [], ImageMapName = []\<rparr>" by code_simp
  from selector_validation [OF a1 a2 a3, of freshReconciler "''lu''"] n1 n2 c s
  have "ensureSelectorValid ?w (exampleLiveUpdate noSelector)
      = Some \<lparr>f_Reason = ''Invalid'', f_Message = ''No valid selector'', f_LastTransitionTime = 1000\<rparr>
    \<and> fst (snd (Reconcile ?w freshReconciler ''lu''))
      = [DispatchLiveUpdateUpsert (exampleLiveUpdate noSelector),
         StatusWrite ((exampleLiveUpdate noSelector)\<lparr>Status := emptyStatus\<lparr>st_Failed :=
           Some \<lparr>f_Reason = ''Invalid'', f_Message = ''No valid selector'',
                 f_LastTransitionTime = 1000\<rparr>\<rparr>\<rparr>)]"
    by (simp add: emptyStatus_def)
  moreover from selector_validation [OF b1 b2 b3, of freshReconciler "''lu''"] b4
  have "ensureSelectorValid ?w2 (exampleLiveUpdate bothSelector) = None"
    by simp
  ultimately show ?thesis using a1 by simp
qed

text \<open>
  The claim as stated fails for a selector with both families set: validation passes, and
  the reconcile goes on to refresh the monitor (here the discovery object is missing, which
  is reported as \<open>ObjectNotFound\<close>, not as \<open>Invalid\<close>).
\<close>

theorem both_selectors_counterexample:
  "Kubernetes (Selector (Spec (exampleLiveUpdate bothSelector))) \<noteq> None
   \<and> DockerCompose (Selector (Spec (exampleLiveUpdate bothSelector))) \<noteq> None
   \<and> ensureSelectorValid quietWorld (exampleLiveUpdate bothSelector) = None
   \<and> snd (Reconcile (quietWorld\<lparr>getLiveUpdate := Inr (exampleLiveUpdate bothSelector)\<rparr>)
          freshReconciler ''lu'')
       = ([DispatchLiveUpdateUpsert (exampleLiveUpdate bothSelector),
           StatusWrite ((exampleLiveUpdate bothSelector)\<lparr>Status := emptyStatus\<lparr>st_Failed :=
             Some \<lparr>f_Reason = ''ObjectNotFound'', f_Message = ''kubernetesdiscovery not found: d'',
                   f_LastTransitionTime = 1000\<rparr>\<rparr>\<rparr>)], None)"
  by code_simp






text \<open>
  C4 (as amended). Garbage collection drops from \<open>modTimeByPath\<close> the files whose mod time
  is strictly before the watermark of their source (the build start time of the image
  status when there is one, \<open>bestStartTime\<close> otherwise) and keeps all others: for a source
  of the spec that the monitor tracks, the files left are exactly the files recorded with
  a mod time greater than or equal to the watermark, so every file left has a mod time
  that is not before the watermark. A file recorded at the watermark itself stays. (With
  a zero watermark nothing is dropped.)
\<close>

theorem gc_keeps_files_not_older:
  assumes "s \<in> set (Sources (spec m))" and "map_of (sources m) (FileWatch s) = Some src"
  shows "map_option modTimeByPath
             (map_of (sources (garbageCollectFileChanges w res m)) (FileWatch s))
           = Some (filter (\<lambda>(p, t). gcTimeOf w res src \<le> t) (modTimeByPath src))
     \<and> map_option (gcTimeOf w res)
             (map_of (sources (garbageCollectFileChanges w res m)) (FileWatch s))
           = Some (gcTimeOf w res src)
     \<and> (\<forall>src'. map_of (sources (garbageCollectFileChanges w res m)) (FileWatch s) = Some src'
           \<longrightarrow> (\<forall>(p, t) \<in> set (modTimeByPath src'). gcTimeOf w res src' \<le> t))"
proof -
  have "map_of (sources (garbageCollectFileChanges w res m)) (FileWatch s)
      = Some (pruneSource w res src)"
    using assms by (simp add: garbageCollectFileChanges_def garbageCollect_fold_sources)
  moreover have "modTimeByPath (pruneSource w res src)
      = filter (\<lambda>(p, t). gcTimeOf w res src \<le> t) (modTimeByPath src)"
    by (simp add: pruneSource_def)
  moreover have "\<forall>(p, t) \<in> set (modTimeByPath (pruneSource w res src)).
      gcTimeOf w res (pruneSource w res src) \<le> t"
    by (auto simp: gcTimeOf_pruneSource) (auto simp: pruneSource_def)
  ultimately show ?thesis using gcTimeOf_pruneSource by simp
qed

text \<open>
  The theorem at the monitor with files of times 30, 40 and 50 and the watermark 40: the
  file of time 30 is dropped.
\<close>

theorem gc_keeps_files_not_older_witness:
  "\<lparr>FileWatch = ''fw'', ImageMap = ''im''\<rparr> \<in> set (Sources (spec gcMonitor))
   \<and> map_option modTimeByPath
        (map_of (sources (garbageCollectFileChanges quietWorld exampleResource gcMonitor)) ''fw'')
      = Some [(''/host/src/tie.go'', 40), (''/host/src/main.go'', 50)]
   \<and> map_option (gcTimeOf quietWorld exampleResource)
        (map_of (sources (garbageCollectFileChanges quietWorld exampleResource gcMonitor)) ''fw'')
      = Some 40"
proof -
  let ?src = "\<lparr>modTimeByPath = [(''/host/src/old.go'', 30), (''/host/src/tie.go'', 40),
                                  (''/host/src/main.go'', 50::nat)],
                lastImageStatus = Some \<lparr>BuildStartTime = Some 40, Image = ''img''\<rparr>,
                lastFileEvent = None\<rparr>"
  have a1: "\<lparr>FileWatch = ''fw'', ImageMap = ''im''\<rparr> \<in> set (Sources (spec gcMonitor))"
    by code_simp
  have a2: "map_of (sources gcMonitor) (FileWatch \<lparr>FileWatch = ''fw'', ImageMap = ''im''\<rparr>) = Some ?src"
    by code_simp
  have g: "gcTimeOf quietWorld exampleResource ?src = 40" by code_simp
  have f: "filter (\<lambda>(p, t). (40::nat) \<le> t) (modTimeByPath ?src)
      = [(''/host/src/tie.go'', 40), (''/host/src/main.go'', 50)]" by simp
  from gc_keeps_files_not_older [OF a1 a2, of quietWorld exampleResource] a1
  show ?thesis by (simp only: g f) simp
qed

text \<open>
  The claim as stated fails at the watermark itself: the file of time 40 is left after
  the collection with the watermark 40, and 40 is not strictly greater than 40.
\<close>

theorem gc_strictly_greater_counterexample:
  "map_option (gcTimeOf quietWorld exampleResource) (map_of (sources gcMonitor) ''fw'') = Some 40
   \<and> map_option modTimeByPath
        (map_of (sources (garbageCollectFileChanges quietWorld exampleResource gcMonitor)) ''fw'')
      = Some [(''/host/src/tie.go'', 40), (''/host/src/main.go'', 50)]
   \<and> \<not> (40::nat) < 40"
  by code_simp

text \<open>
  C5. Two containers are selected in one pass of a reconcile; the updater returns a
  run-step failure for the first and succeeds for the second. The reconcile does not set
  \<open>status.failed\<close> to \<open>PodsInconsistent\<close>: the status it writes has no failed state and
  lists both containers, the first with its exec error, and the build-complete event
  carries that error. \<open>maybeSync\<close> calls \<open>applyInternal\<close> once for each container, with
  a list of that one container, so the variable \<open>lastExecErrorStatus\<close> of \<open>applyInternal\<close>
  never holds the failure of an earlier container of the pass
  (lemma \<open>updateOneContainer_never_inconsistent\<close>). One call of \<open>applyInternal\<close> with
  the same two containers returns \<open>PodsInconsistent\<close>
  (in general, lemma \<open>applyInternal_inconsistent\<close>).
\<close>

theorem two_containers_no_pods_inconsistent:
  "UpdateContainer (podsWorld [runningPod ''P1'' ''cid1'', runningPod ''P2'' ''cid2''] firstRunFails)
      (updatedContainer ''P1'' ''cid1'') = RunStepFailure ''exit status 1''
   \<and> UpdateContainer (podsWorld [runningPod ''P1'' ''cid1'', runningPod ''P2'' ''cid2''] firstRunFails)
      (updatedContainer ''P2'' ''cid2'') = UpdateOK
   \<and> snd (Reconcile
        (podsWorld [runningPod ''P1'' ''cid1'', runningPod ''P2'' ''cid2''] firstRunFails)
        freshReconciler ''lu'')
     = ([DispatchLiveUpdateUpsert happyLiveUpdate,
         DispatchBuildStarted ''frontend'' [''/host/src/main.go''],
         CallUpdateContainer (updatedContainer ''P1'' ''cid1''),
         CallUpdateContainer (updatedContainer ''P2'' ''cid2''),
         DispatchBuildComplete ''frontend'' (Some ''exit status 1''),
         StatusWrite (happyLiveUpdate\<lparr>Status :=
           \<lparr>st_Failed = None,
            st_Containers = [syncedStatus ''P1'' ''cid1'' 50 ''exit status 1'',
                             syncedStatus ''P2'' ''cid2'' 50 []]\<rparr>\<rparr>)],
        None)
   \<and> map_option f_Reason (st_Failed (fst (applyInternal
        (podsWorld [runningPod ''P1'' ''cid1'', runningPod ''P2'' ''cid2''] firstRunFails)
        (Spec happyLiveUpdate)
        \<lparr>IsDC = False, ChangedFiles = [(''/host/src/main.go'', ''/app/src/main.go'')],
         in_Containers = [updatedContainer ''P1'' ''cid1'', updatedContainer ''P2'' ''cid2''],
         in_LastFileTimeSynced = 50\<rparr>))) = Some ''PodsInconsistent''"
  by code_simp

text \<open>
  C6 (as amended). At the end of the pass over the selected containers: if every selected
  container is terminated (pod phase \<open>Succeeded\<close> or \<open>Failed\<close>, or container state
  terminated), at least one of their pods has a name, and the scan found changed files
  for at least one of them, then the status gets failed with reason \<open>Terminated\<close> and a
  message that ends with the first such pod name, and no updater was called. If any
  selected container is not terminated, there is no promotion: the pass reports that
  container (waiting, synced or nothing to do) or a failure of its own, also when no
  container was updated.
\<close>

theorem terminated_only_promotion:
  "((\<forall>pc \<in> set selected. isTerminated (fst pc) (snd pc)) \<and> firstPodName selected \<noteq> []
      \<and> (\<exists>pc \<in> set selected. filesChangedFor r m (fst pc) (snd pc) \<noteq> []) \<longrightarrow>
      promoteTerminated w lu (syncContainers w r lu iw m selected)
        = emptyStatus\<lparr>st_Failed := Some (createFailedState w lu ''Terminated''
            (''Container for live update is stopped. Pod name: '' @ firstPodName selected))\<rparr>
      \<and> ss_trace (syncContainers w r lu iw m selected) = [])
   \<and> ((\<exists>pc \<in> set selected. \<not> isTerminated (fst pc) (snd pc)) \<longrightarrow>
      promoteTerminated w lu (syncContainers w r lu iw m selected)
        = ss_status (syncContainers w r lu iw m selected))"
proof -
  have a: "promoteTerminated w lu (syncContainers w r lu iw m selected)
        = emptyStatus\<lparr>st_Failed := Some (createFailedState w lu ''Terminated''
            (''Container for live update is stopped. Pod name: '' @ firstPodName selected))\<rparr>
      \<and> ss_trace (syncContainers w r lu iw m selected) = []"
    if "\<forall>pc \<in> set selected. isTerminated (fst pc) (snd pc)" and "firstPodName selected \<noteq> []"
      and "\<exists>pc \<in> set selected. filesChangedFor r m (fst pc) (snd pc) \<noteq> []"
    using that
    by (simp add: syncContainers_def visit_all_terminated promoteTerminated_def
        initialSyncState_def emptyStatus_def)
  have b: "promoteTerminated w lu (syncContainers w r lu iw m selected)
        = ss_status (syncContainers w r lu iw m selected)"
    if "\<exists>pc \<in> set selected. \<not> isTerminated (fst pc) (snd pc)"
    using visit_live_reported [OF that, of w r lu iw "initialSyncState m"]
    by (auto simp: syncContainers_def promoteTerminated_def reported_def)
  from a b show ?thesis by blast
qed

text \<open>
  The theorem at a single completed pod with a changed file, and at a completed pod next
  to a starting one.
\<close>

theorem terminated_only_promotion_witness:
  "isTerminated (succeededPod ''old'' ''cid1'') (runningContainer ''cid1'')
   \<and> firstPodName [(succeededPod ''old'' ''cid1'', runningContainer ''cid1'')] = ''old''
   \<and> filesChangedFor freshReconciler happyMonitor (succeededPod ''old'' ''cid1'')
        (runningContainer ''cid1'') = [''/host/src/main.go'']
   \<and> promoteTerminated happyWorld happyLiveUpdate
        (syncContainers happyWorld freshReconciler happyLiveUpdate False happyMonitor
           [(succeededPod ''old'' ''cid1'', runningContainer ''cid1'')])
       = \<lparr>st_Failed = Some \<lparr>f_Reason = ''Terminated'',
                             f_Message = ''Container for live update is stopped. Pod name: old'',
                             f_LastTransitionTime = 1000\<rparr>,
          st_Containers = []\<rparr>
   \<and> \<not> isTerminated (startingPod ''new'' ''cid2'') (hd (Containers (startingPod ''new'' ''cid2'')))
   \<and> promoteTerminated happyWorld happyLiveUpdate
        (syncContainers happyWorld freshReconciler happyLiveUpdate False happyMonitor
           [(succeededPod ''old'' ''cid1'', runningContainer ''cid1''),
            (startingPod ''new'' ''cid2'', hd (Containers (startingPod ''new'' ''cid2'')))])
       = ss_status
          (syncContainers happyWorld freshReconciler happyLiveUpdate False happyMonitor
           [(succeededPod ''old'' ''cid1'', runningContainer ''cid1''),
            (startingPod ''new'' ''cid2'', hd (Containers (startingPod ''new'' ''cid2'')))])"
proof -
  let ?old = "(succeededPod ''old'' ''cid1'', runningContainer ''cid1'')"
  let ?new = "(startingPod ''new'' ''cid2'', hd (Containers (startingPod ''new'' ''cid2'')))"
  have t: "isTerminated (fst ?old) (snd ?old)" by code_simp
  have n: "firstPodName [?old] = ''old''" by code_simp
  have f: "filesChangedFor freshReconciler happyMonitor (fst ?old) (snd ?old) = [''/host/src/main.go'']"
    by code_simp
  have l: "\<not> isTerminated (fst ?new) (snd ?new)" by code_simp
  have c: "createFailedState happyWorld happyLiveUpdate ''Terminated''
             ''Container for live update is stopped. Pod name: old''
      = \<lparr>f_Reason = ''Terminated'',
         f_Message = ''Container for live update is stopped. Pod name: old'',
         f_LastTransitionTime = 1000\<rparr>" by code_simp
  from terminated_only_promotion [of "[?old]" freshReconciler happyMonitor happyWorld happyLiveUpdate False]
    t n f
  have one: "promoteTerminated happyWorld happyLiveUpdate
        (syncContainers happyWorld freshReconciler happyLiveUpdate False happyMonitor [?old])
       = \<lparr>st_Failed = Some \<lparr>f_Reason = ''Terminated'',
                             f_Message = ''Container for live update is stopped. Pod name: old'',
                             f_LastTransitionTime = 1000\<rparr>,
          st_Containers = []\<rparr>"
    by (simp add: c emptyStatus_def)
  from terminated_only_promotion [of "[?old, ?new]" freshReconciler happyMonitor happyWorld happyLiveUpdate False]
    l
  have two: "promoteTerminated happyWorld happyLiveUpdate
        (syncContainers happyWorld freshReconciler happyLiveUpdate False happyMonitor [?old, ?new])
       = ss_status
          (syncContainers happyWorld freshReconciler happyLiveUpdate False happyMonitor [?old, ?new])"
    by simp
  from one two t n f l show ?thesis by simp
qed

text \<open>
  The claim as stated fails when a live container is only waiting: a completed pod and a
  pod whose container has not started, with a changed file. No failure is set, a
  terminated container was selected, no live container was updated (the updater is not
  called) and there were files to sync; the status reports the waiting container.
\<close>

theorem terminated_and_waiting_counterexample:
  "isTerminated (succeededPod ''old'' ''cid1'') (runningContainer ''cid1'')
   \<and> filesChangedFor freshReconciler
        (podsMonitor [succeededPod ''old'' ''cid1'', startingPod ''new'' ''cid2''])
        (succeededPod ''old'' ''cid1'') (runningContainer ''cid1'') = [''/host/src/main.go'']
   \<and> fst (snd (Reconcile
        (podsWorld [succeededPod ''old'' ''cid1'', startingPod ''new'' ''cid2''] (\<lambda>c. UpdateOK))
        freshReconciler ''lu''))
     = [DispatchLiveUpdateUpsert happyLiveUpdate,
        StatusWrite (happyLiveUpdate\<lparr>Status :=
          \<lparr>st_Failed = None,
           st_Containers = [(syncedStatus ''new'' ''cid2'' 0 [])\<lparr>cs_Waiting :=
              Some \<lparr>w_Reason = ''ContainerWaiting'', w_Message = ''Waiting for container to start''\<rparr>\<rparr>]\<rparr>\<rparr>)]"
  by code_simp

text \<open>
  C7 (as amended). A reconcile of a live update that exists and is not being deleted, whose
  monitor holds the spec of the object, has recorded every watched object as a fetch
  returns it now, and has no sync pending (\<open>hasChangesToSync\<close> is not set), changes
  nothing: the reconciler with all its monitors is left as it was, the container updater
  is not called and no build event is dispatched.
\<close>

theorem replay_changes_nothing:
  assumes "getLiveUpdate w = Inr lu" and "DeletionTimestamp lu = None"
    and "map_of (monitors r) (Name lu) = Some m" and "spec m = Spec lu"
    and "allRecorded w m" and "\<not> hasChangesToSync m"
  shows "fst (Reconcile w r reqName) = r
     \<and> filter isUpdateCall (fst (snd (Reconcile w r reqName))) = []
     \<and> buildEffects (fst (snd (Reconcile w r reqName))) = []"
proof -
  have em: "ensureMonitorExists r (Name lu) lu = (m, r)"
    using assms(3,4) by (simp add: ensureMonitorExists_def)
  have s: "reconcileSources w m = (m, Inr False)"
    using assms(5) by (simp add: allRecorded_def reconcileSources_recorded)
  have k: "reconcileKubernetesResource w m = (m, Inr False)"
    using assms(5) by (simp add: allRecorded_def reconcileKubernetesResource_recorded)
  have d: "reconcileDockerComposeService w m = (m, Inr False)"
    using assms(5) by (simp add: allRecorded_def reconcileDockerComposeService_recorded)
  have t: "fst (reconcileTriggerQueue w m) = m
     \<and> (\<forall>c. snd (reconcileTriggerQueue w m) = Inr c \<longrightarrow> \<not> c)"
    using assms(5) reconcileTriggerQueue_recorded [of w m] unfolding allRecorded_def by blast
  have f: "finishReconcile w r lu m False = (r, [], None)"
    by (rule finishReconcile_idle [OF assms(3,6)])
  have p: "putMonitor (Name lu) m r = r" by (rule putMonitor_same [OF assms(3)])
  have h: "filter isUpdateCall (fst (handleFailure w lu x)) = []" for x
    by (simp add: handleFailure_def Let_def)
  show ?thesis
  proof (cases "annotation lu AnnotationManagedBy \<noteq> []")
    case True
    then show ?thesis using assms(1,2) by (simp add: Reconcile_def buildEffects_def)
  next
    case False
    note unmanaged = this
    show ?thesis
    proof (cases "ensureSelectorValid w lu")
      case (Some invalid)
      then show ?thesis
        using assms(1,2) unmanaged h [of invalid] handleFailure_buildEffects [of w lu invalid]
        by (simp add: Reconcile_def case_prod_beta)
    next
      case None
      obtain m4 res where tq: "reconcileTriggerQueue w m = (m4, res)"
        by (cases "reconcileTriggerQueue w m") auto
      have m4: "m4 = m" using t tq by simp
      show ?thesis
      proof (cases res)
        case (Inl err)
        then show ?thesis
          using assms(1,2) unmanaged None em s k d tq m4 p
          by (simp add: Reconcile_def buildEffects_def)
      next
        case (Inr c)
        then have "\<not> c" using t tq by simp
        then show ?thesis
          using assms(1,2) unmanaged None em s k d tq m4 f Inr
          by (simp add: Reconcile_def buildEffects_def)
      qed
    qed
  qed
qed

text \<open>
  The theorem at the second reconcile in the world of the running pod, after a first one
  that synced the file and wrote the status.
\<close>

theorem replay_changes_nothing_witness:
  "getLiveUpdate happyWorld = Inr happyLiveUpdate
   \<and> map_of (monitors syncedReconciler) ''lu'' = Some (monitorOf syncedReconciler ''lu'')
   \<and> allRecorded happyWorld (monitorOf syncedReconciler ''lu'')
   \<and> fst (Reconcile happyWorld syncedReconciler ''lu'') = syncedReconciler
   \<and> fst (snd (Reconcile happyWorld syncedReconciler ''lu'')) = [DispatchLiveUpdateUpsert happyLiveUpdate]"
proof -
  let ?m = "monitorOf syncedReconciler ''lu''"
  have a1: "getLiveUpdate happyWorld = Inr happyLiveUpdate" by code_simp
  have a2: "DeletionTimestamp happyLiveUpdate = None" by code_simp
  have a3: "map_of (monitors syncedReconciler) (Name happyLiveUpdate) = Some ?m" by code_simp
  have a4: "spec ?m = Spec happyLiveUpdate" by code_simp
  have a5: "allRecorded happyWorld ?m" by code_simp
  have a6: "\<not> hasChangesToSync ?m" by code_simp
  have n: "Name happyLiveUpdate = ''lu''" by code_simp
  have e: "fst (snd (Reconcile happyWorld syncedReconciler ''lu'')) = [DispatchLiveUpdateUpsert happyLiveUpdate]"
    by code_simp
  from replay_changes_nothing [OF a1 a2 a3 a4 a5 a6, of "''lu''"] a1 a3 a5 e n
  show ?thesis by simp
qed

text \<open>
  The claim as stated fails when a sync is pending. A reconcile leaves \<open>hasChangesToSync\<close>
  set when its status write fails. In the reconcile that follows every watched object is
  as the monitor recorded it, and still the monitor changes: the pass runs again and the
  flag is cleared (first part, in the world of the running pod). The pass can also call
  the updater again (second part): with two sources, the failure memo of the first
  reconcile, whose low-water mark 15 is before the build start 20 of the second source, is
  cleared by the garbage collection, and the file is synced.
\<close>

theorem pending_sync_counterexample:
  "getLiveUpdate happyWorld = Inr happyLiveUpdate
   \<and> map_of (monitors pendingReconciler) ''lu'' = Some (monitorOf pendingReconciler ''lu'')
   \<and> spec (monitorOf pendingReconciler ''lu'') = Spec happyLiveUpdate
   \<and> allRecorded happyWorld (monitorOf pendingReconciler ''lu'')
   \<and> hasChangesToSync (monitorOf pendingReconciler ''lu'')
   \<and> fst (Reconcile happyWorld pendingReconciler ''lu'') \<noteq> pendingReconciler
   \<and> \<not> hasChangesToSync (monitorOf (fst (Reconcile happyWorld pendingReconciler ''lu'')) ''lu'')
   \<and> getLiveUpdate (twoSourceWorld (\<lambda>c. UpdateOK) None) = Inr twoSourceLiveUpdate
   \<and> map_of (monitors retryReconciler) ''lu'' = Some (monitorOf retryReconciler ''lu'')
   \<and> spec (monitorOf retryReconciler ''lu'') = Spec twoSourceLiveUpdate
   \<and> allRecorded (twoSourceWorld (\<lambda>c. UpdateOK) None) (monitorOf retryReconciler ''lu'')
   \<and> hasChangesToSync (monitorOf retryReconciler ''lu'')
   \<and> filter isUpdateCall
        (fst (snd (Reconcile (twoSourceWorld (\<lambda>c. UpdateOK) None) retryReconciler ''lu'')))
       = [CallUpdateContainer (updatedContainer ''P'' ''cid'')]"
  by code_simp

text \<open>
  C9. In every pass of \<open>maybeSync\<close>, and so in every reconcile, the build events and the
  updater calls have one of two shapes: there are none at all, or there is exactly one
  build-started event, first, then only calls of the container updater, then exactly one
  build-complete event, last. So build-started is dispatched at most once and before the
  first updater call, and build-complete is dispatched after the last updater call and
  only when build-started was dispatched.
\<close>

theorem build_events_bracket:
  "buildBracket (snd (snd (maybeSync w r lu m)))
   \<and> buildBracket (buildEffects (fst (snd (Reconcile w r reqName))))"
  using maybeSync_bracket Reconcile_bracket by simp

text \<open>
  The theorem at the reconcile of two running replicas: one build-started event, the two
  updater calls, one build-complete event.
\<close>

theorem build_events_bracket_witness:
  "buildEffects (fst (snd (Reconcile
      (podsWorld [runningPod ''P1'' ''cid1'', runningPod ''P2'' ''cid2''] firstRunFails)
      freshReconciler ''lu'')))
     = [DispatchBuildStarted ''frontend'' [''/host/src/main.go''],
        CallUpdateContainer (updatedContainer ''P1'' ''cid1''),
        CallUpdateContainer (updatedContainer ''P2'' ''cid2''),
        DispatchBuildComplete ''frontend'' (Some ''exit status 1'')]
   \<and> buildBracket
        [DispatchBuildStarted ''frontend'' [''/host/src/main.go''],
         CallUpdateContainer (updatedContainer ''P1'' ''cid1''),
         CallUpdateContainer (updatedContainer ''P2'' ''cid2''),
         DispatchBuildComplete ''frontend'' (Some ''exit status 1'')]"
proof -
  let ?w = "podsWorld [runningPod ''P1'' ''cid1'', runningPod ''P2'' ''cid2''] firstRunFails"
  have e: "buildEffects (fst (snd (Reconcile ?w freshReconciler ''lu'')))
     = [DispatchBuildStarted ''frontend'' [''/host/src/main.go''],
        CallUpdateContainer (updatedContainer ''P1'' ''cid1''),
        CallUpdateContainer (updatedContainer ''P2'' ''cid2''),
        DispatchBuildComplete ''frontend'' (Some ''exit status 1'')]"
    by code_simp
  from build_events_bracket [of ?w freshReconciler happyLiveUpdate happyMonitor "''lu''"] e
  show ?thesis by simp
qed

text \<open>
  C10 (as amended). A missing trigger-queue ConfigMap does not fail the reconcile: the
  fetch of the trigger queue reads a ConfigMap that does not exist as an empty queue, so
  \<open>reconcileTriggerQueue\<close> returns no error. It reports a change and records the empty
  queue in the monitor, unless the monitor holds a snapshot of an empty queue already;
  then it reports no change. A reconcile whose other three refreshes succeed goes on to
  its last part with the four change flags, so neither an \<open>ObjectNotFound\<close> state nor an
  error comes from the missing ConfigMap. In the same world, a not-found error for a
  FileWatch or an ImageMap of a source, for the KubernetesApply, the KubernetesDiscovery
  or the ImageMap of the Kubernetes selector, or for the DockerComposeService ends the
  reconcile: it writes the failed state \<open>ObjectNotFound\<close> with the text of that error
  (unless the status holds exactly that state already) and returns what the status write
  returns.
\<close>

theorem missing_trigger_queue:
  assumes "getTriggerQueueConfigMap w = Inl err" and "IsNotFound err"
    and "getLiveUpdate w = Inr lu" and "DeletionTimestamp lu = None"
    and "annotation lu AnnotationManagedBy = []" and "ensureSelectorValid w lu = None"
    and "ensureMonitorExists r (Name lu) lu = (m0, r0)"
  shows "(\<forall>m. reconcileTriggerQueue w m =
            (if emptyQueueRecorded m then (m, Inr False)
             else (m\<lparr>lastTriggerQueue := Some emptyConfigMap\<rparr>, Inr True)))
     \<and> (\<forall>m1 a m2 b m3 c.
           reconcileSources w m0 = (m1, Inr a) \<and> reconcileKubernetesResource w m1 = (m2, Inr b)
           \<and> reconcileDockerComposeService w m2 = (m3, Inr c) \<longrightarrow>
           Reconcile w r reqName =
             (case finishReconcile w r0 lu
                     (if emptyQueueRecorded m3 then m3
                      else m3\<lparr>lastTriggerQueue := Some emptyConfigMap\<rparr>)
                     (a \<or> b \<or> c \<or> \<not> emptyQueueRecorded m3) of
                (r', effects, e) \<Rightarrow> (r', DispatchLiveUpdateUpsert lu # effects, e)))
     \<and> (\<forall>pre s post mp hp e.
           Sources (spec m0) = pre @ s # post \<and> reconcileSourcesLoop w m0 False pre = (mp, Inr hp)
           \<and> FileWatch s \<noteq> [] \<and> getFileWatch w (FileWatch s) = Inl e \<and> IsNotFound e \<longrightarrow>
           snd (Reconcile w r reqName) = objectNotFoundRecorded w lu e)
     \<and> (\<forall>pre s post mp hp fw e.
           Sources (spec m0) = pre @ s # post \<and> reconcileSourcesLoop w m0 False pre = (mp, Inr hp)
           \<and> (FileWatch s = [] \<or> getFileWatch w (FileWatch s) = Inr fw)
           \<and> ImageMap s \<noteq> [] \<and> getImageMap w (ImageMap s) = Inl e \<and> IsNotFound e \<longrightarrow>
           snd (Reconcile w r reqName) = objectNotFoundRecorded w lu e)
     \<and> (\<forall>m1 a k e.
           reconcileSources w m0 = (m1, Inr a) \<and> Kubernetes (Selector (spec m1)) = Some k
           \<and> ApplyName k \<noteq> [] \<and> getKubernetesApply w (ApplyName k) = Inl e \<and> IsNotFound e \<longrightarrow>
           snd (Reconcile w r reqName) = objectNotFoundRecorded w lu e)
     \<and> (\<forall>m1 a k ka e.
           reconcileSources w m0 = (m1, Inr a) \<and> Kubernetes (Selector (spec m1)) = Some k
           \<and> (ApplyName k = [] \<or> getKubernetesApply w (ApplyName k) = Inr ka)
           \<and> getKubernetesDiscovery w (DiscoveryName k) = Inl e \<and> IsNotFound e \<longrightarrow>
           snd (Reconcile w r reqName) = objectNotFoundRecorded w lu e)
     \<and> (\<forall>m1 a k ka kd e.
           reconcileSources w m0 = (m1, Inr a) \<and> Kubernetes (Selector (spec m1)) = Some k
           \<and> (ApplyName k = [] \<or> getKubernetesApply w (ApplyName k) = Inr ka)
           \<and> getKubernetesDiscovery w (DiscoveryName k) = Inr kd
           \<and> ImageMapName k \<noteq> [] \<and> getImageMap w (ImageMapName k) = Inl e \<and> IsNotFound e \<longrightarrow>
           snd (Reconcile w r reqName) = objectNotFoundRecorded w lu e)
     \<and> (\<forall>m1 a m2 b d e.
           reconcileSources w m0 = (m1, Inr a) \<and> reconcileKubernetesResource w m1 = (m2, Inr b)
           \<and> DockerCompose (Selector (spec m2)) = Some d
           \<and> getDockerComposeService w (Service d) = Inl e \<and> IsNotFound e \<longrightarrow>
           snd (Reconcile w r reqName) = objectNotFoundRecorded w lu e)"
proof -
  note tq = reconcileTriggerQueue_missing [OF assms(1,2)]
  note src = Reconcile_sources_not_found [OF assms(3-7)]
  note k8s = Reconcile_kubernetes_not_found [OF assms(3-7)]
  note dc = Reconcile_dockerCompose_not_found [OF assms(3-7)]
  have c1: "\<forall>m. reconcileTriggerQueue w m =
            (if emptyQueueRecorded m then (m, Inr False)
             else (m\<lparr>lastTriggerQueue := Some emptyConfigMap\<rparr>, Inr True))"
    using tq by simp
  have c2: "\<forall>m1 a m2 b m3 c.
           reconcileSources w m0 = (m1, Inr a) \<and> reconcileKubernetesResource w m1 = (m2, Inr b)
           \<and> reconcileDockerComposeService w m2 = (m3, Inr c) \<longrightarrow>
           Reconcile w r reqName =
             (case finishReconcile w r0 lu
                     (if emptyQueueRecorded m3 then m3
                      else m3\<lparr>lastTriggerQueue := Some emptyConfigMap\<rparr>)
                     (a \<or> b \<or> c \<or> \<not> emptyQueueRecorded m3) of
                (r', effects, e) \<Rightarrow> (r', DispatchLiveUpdateUpsert lu # effects, e))"
    using assms(3-7) by (simp add: Reconcile_def tq)
  have c3: "\<forall>pre s post mp hp e.
           Sources (spec m0) = pre @ s # post \<and> reconcileSourcesLoop w m0 False pre = (mp, Inr hp)
           \<and> FileWatch s \<noteq> [] \<and> getFileWatch w (FileWatch s) = Inl e \<and> IsNotFound e \<longrightarrow>
           snd (Reconcile w r reqName) = objectNotFoundRecorded w lu e"
    using src reconcileSources_fails reconcileOneSource_no_fileWatch by blast
  have c4: "\<forall>pre s post mp hp fw e.
           Sources (spec m0) = pre @ s # post \<and> reconcileSourcesLoop w m0 False pre = (mp, Inr hp)
           \<and> (FileWatch s = [] \<or> getFileWatch w (FileWatch s) = Inr fw)
           \<and> ImageMap s \<noteq> [] \<and> getImageMap w (ImageMap s) = Inl e \<and> IsNotFound e \<longrightarrow>
           snd (Reconcile w r reqName) = objectNotFoundRecorded w lu e"
    using src reconcileSources_fails reconcileOneSource_no_imageMap by blast
  have c5: "\<forall>m1 a k e.
           reconcileSources w m0 = (m1, Inr a) \<and> Kubernetes (Selector (spec m1)) = Some k
           \<and> ApplyName k \<noteq> [] \<and> getKubernetesApply w (ApplyName k) = Inl e \<and> IsNotFound e \<longrightarrow>
           snd (Reconcile w r reqName) = objectNotFoundRecorded w lu e"
    using k8s reconcileKubernetesResource_no_apply by blast
  have c6: "\<forall>m1 a k ka e.
           reconcileSources w m0 = (m1, Inr a) \<and> Kubernetes (Selector (spec m1)) = Some k
           \<and> (ApplyName k = [] \<or> getKubernetesApply w (ApplyName k) = Inr ka)
           \<and> getKubernetesDiscovery w (DiscoveryName k) = Inl e \<and> IsNotFound e \<longrightarrow>
           snd (Reconcile w r reqName) = objectNotFoundRecorded w lu e"
    using k8s reconcileKubernetesResource_no_discovery by blast
  have c7: "\<forall>m1 a k ka kd e.
           reconcileSources w m0 = (m1, Inr a) \<and> Kubernetes (Selector (spec m1)) = Some k
           \<and> (ApplyName k = [] \<or> getKubernetesApply w (ApplyName k) = Inr ka)
           \<and> getKubernetesDiscovery w (DiscoveryName k) = Inr kd
           \<and> ImageMapName k \<noteq> [] \<and> getImageMap w (ImageMapName k) = Inl e \<and> IsNotFound e \<longrightarrow>
           snd (Reconcile w r reqName) = objectNotFoundRecorded w lu e"
    using k8s reconcileKubernetesResource_no_imageMap by blast
  have c8: "\<forall>m1 a m2 b d e.
           reconcileSources w m0 = (m1, Inr a) \<and> reconcileKubernetesResource w m1 = (m2, Inr b)
           \<and> DockerCompose (Selector (spec m2)) = Some d
           \<and> getDockerComposeService w (Service d) = Inl e \<and> IsNotFound e \<longrightarrow>
           snd (Reconcile w r reqName) = objectNotFoundRecorded w lu e"
    using dc reconcileDockerComposeService_no_service by blast
  show ?thesis
    using c1 c2 c3 c4 c5 c6 c7 c8 by - (intro conjI; assumption)
qed

text \<open>
  The theorem in worlds of the running pod, none of which has the ConfigMap of the
  trigger queue. Where every referenced object exists, the first reconcile records the
  empty queue as a change and returns no error. Where the file watch, the image map of
  the source, the Kubernetes apply, the Kubernetes discovery or the Docker Compose
  service does not exist, the reconcile writes \<open>ObjectNotFound\<close> for that object.
\<close>

theorem missing_trigger_queue_witness:
  "getTriggerQueueConfigMap happyWorld = Inl (NotFound ''configmap not found'')
   \<and> reconcileTriggerQueue happyWorld
        (fst (reconcileDockerComposeService happyWorld
          (fst (reconcileKubernetesResource happyWorld
            (fst (reconcileSources happyWorld (newMonitor happyLiveUpdate)))))))
      = ((fst (reconcileDockerComposeService happyWorld
           (fst (reconcileKubernetesResource happyWorld
             (fst (reconcileSources happyWorld (newMonitor happyLiveUpdate)))))))
          \<lparr>lastTriggerQueue := Some emptyConfigMap\<rparr>, Inr True)
   \<and> snd (snd (Reconcile happyWorld freshReconciler ''lu'')) = None
   \<and> writtenFailedStates (fst (snd (Reconcile happyWorld freshReconciler ''lu''))) = []
   \<and> snd (Reconcile noFileWatchWorld freshReconciler ''lu'')
      = ([DispatchLiveUpdateUpsert happyLiveUpdate,
          StatusWrite (happyLiveUpdate\<lparr>Status := notFoundStatus ''filewatch not found: fw''\<rparr>)], None)
   \<and> snd (Reconcile noImageMapWorld freshReconciler ''lu'')
      = ([DispatchLiveUpdateUpsert imageLiveUpdate,
          StatusWrite (imageLiveUpdate\<lparr>Status := notFoundStatus ''imagemap not found: im''\<rparr>)], None)
   \<and> snd (Reconcile noApplyWorld freshReconciler ''lu'')
      = ([DispatchLiveUpdateUpsert happyLiveUpdate,
          StatusWrite (happyLiveUpdate\<lparr>Status := notFoundStatus ''kubernetesapply not found: a''\<rparr>)], None)
   \<and> snd (Reconcile noDiscoveryWorld freshReconciler ''lu'')
      = ([DispatchLiveUpdateUpsert happyLiveUpdate,
          StatusWrite (happyLiveUpdate\<lparr>Status := notFoundStatus ''kubernetesdiscovery not found: d''\<rparr>)], None)
   \<and> snd (Reconcile noServiceWorld freshReconciler ''lu'')
      = ([DispatchLiveUpdateUpsert composeLiveUpdate,
          StatusWrite (composeLiveUpdate\<lparr>Status := notFoundStatus ''dockercomposeservice not found: svc''\<rparr>)], None)"
proof -
  let ?nf = "NotFound ''configmap not found''"
  let ?m0 = "newMonitor happyLiveUpdate"
  let ?r0 = "freshReconciler\<lparr>monitors := AList.update ''lu'' ?m0 (monitors freshReconciler)\<rparr>"
  let ?s = "\<lparr>FileWatch = ''fw'', ImageMap = []\<rparr>"
  let ?k = "\<lparr>DiscoveryName = ''d'', ApplyName = ''a'', ImageMapName = []\<rparr>"
  have nf: "IsNotFound ?nf" by simp
  have l4: "DeletionTimestamp happyLiveUpdate = None" by code_simp
  have l5: "annotation happyLiveUpdate AnnotationManagedBy = []" by code_simp
  have l7: "ensureMonitorExists freshReconciler (Name happyLiveUpdate) happyLiveUpdate = (?m0, ?r0)"
    by code_simp
  have src: "Sources (spec ?m0) = [] @ ?s # []" by code_simp

  txt \<open>Every referenced object exists.\<close>
  let ?m1 = "fst (reconcileSources happyWorld ?m0)"
  let ?m2 = "fst (reconcileKubernetesResource happyWorld ?m1)"
  let ?m3 = "fst (reconcileDockerComposeService happyWorld ?m2)"
  have a1: "getTriggerQueueConfigMap happyWorld = Inl ?nf" by code_simp
  have a3: "getLiveUpdate happyWorld = Inr happyLiveUpdate" by code_simp
  have a6: "ensureSelectorValid happyWorld happyLiveUpdate = None" by code_simp
  have a8: "\<not> emptyQueueRecorded ?m3" by code_simp
  have a9: "snd (snd (Reconcile happyWorld freshReconciler ''lu'')) = None" by code_simp
  have a10: "writtenFailedStates (fst (snd (Reconcile happyWorld freshReconciler ''lu''))) = []"
    by code_simp
  note happy = missing_trigger_queue [where reqName = "''lu''", OF a1 nf a3 l4 l5 a6 l7]
  have w1: "reconcileTriggerQueue happyWorld ?m3
      = (?m3\<lparr>lastTriggerQueue := Some emptyConfigMap\<rparr>, Inr True)"
    using happy [THEN conjunct1, rule_format, of ?m3] a8 by simp

  txt \<open>The file watch does not exist.\<close>
  let ?e = "NotFound ''filewatch not found: fw''"
  have b1: "getTriggerQueueConfigMap noFileWatchWorld = Inl ?nf" by code_simp
  have b3: "getLiveUpdate noFileWatchWorld = Inr happyLiveUpdate" by code_simp
  have b6: "ensureSelectorValid noFileWatchWorld happyLiveUpdate = None" by code_simp
  have b8: "getFileWatch noFileWatchWorld (FileWatch ?s) = Inl ?e" by code_simp
  have b9: "objectNotFoundRecorded noFileWatchWorld happyLiveUpdate ?e
      = ([DispatchLiveUpdateUpsert happyLiveUpdate,
          StatusWrite (happyLiveUpdate\<lparr>Status := notFoundStatus ''filewatch not found: fw''\<rparr>)], None)"
    by code_simp
  note noFileWatch = missing_trigger_queue [where reqName = "''lu''", OF b1 nf b3 l4 l5 b6 l7]
  have w2: "snd (Reconcile noFileWatchWorld freshReconciler ''lu'')
      = ([DispatchLiveUpdateUpsert happyLiveUpdate,
          StatusWrite (happyLiveUpdate\<lparr>Status := notFoundStatus ''filewatch not found: fw''\<rparr>)], None)"
    using noFileWatch [THEN conjunct2, THEN conjunct2, THEN conjunct1, rule_format,
        of "[]" ?s "[]" ?m0 False ?e] src b8 b9
    by simp

  txt \<open>The image map of the source does not exist.\<close>
  let ?mi = "newMonitor imageLiveUpdate"
  let ?ri = "freshReconciler\<lparr>monitors := AList.update ''lu'' ?mi (monitors freshReconciler)\<rparr>"
  let ?si = "\<lparr>FileWatch = ''fw'', ImageMap = ''im''\<rparr>"
  let ?ei = "NotFound ''imagemap not found: im''"
  let ?fw = "\<lparr>FileEvents = [\<lparr>Time = 50, SeenFiles = [''/host/src/main.go'']\<rparr>]\<rparr>"
  have c1: "getTriggerQueueConfigMap noImageMapWorld = Inl ?nf" by code_simp
  have c3: "getLiveUpdate noImageMapWorld = Inr imageLiveUpdate" by code_simp
  have c4: "DeletionTimestamp imageLiveUpdate = None" by code_simp
  have c5: "annotation imageLiveUpdate AnnotationManagedBy = []" by code_simp
  have c6: "ensureSelectorValid noImageMapWorld imageLiveUpdate = None" by code_simp
  have c7: "ensureMonitorExists freshReconciler (Name imageLiveUpdate) imageLiveUpdate = (?mi, ?ri)"
    by code_simp
  have c8: "Sources (spec ?mi) = [] @ ?si # []" by code_simp
  have c9: "getFileWatch noImageMapWorld (FileWatch ?si) = Inr ?fw" by code_simp
  have c10: "getImageMap noImageMapWorld (ImageMap ?si) = Inl ?ei" by code_simp
  have c11: "objectNotFoundRecorded noImageMapWorld imageLiveUpdate ?ei
      = ([DispatchLiveUpdateUpsert imageLiveUpdate,
          StatusWrite (imageLiveUpdate\<lparr>Status := notFoundStatus ''imagemap not found: im''\<rparr>)], None)"
    by code_simp
  note noImageMap = missing_trigger_queue [where reqName = "''lu''", OF c1 nf c3 c4 c5 c6 c7]
  have w3: "snd (Reconcile noImageMapWorld freshReconciler ''lu'')
      = ([DispatchLiveUpdateUpsert imageLiveUpdate,
          StatusWrite (imageLiveUpdate\<lparr>Status := notFoundStatus ''imagemap not found: im''\<rparr>)], None)"
    using noImageMap [THEN conjunct2, THEN conjunct2, THEN conjunct2, THEN conjunct1, rule_format,
        of "[]" ?si "[]" ?mi False ?fw ?ei] c8 c9 c10 c11
    by simp

  txt \<open>The Kubernetes apply does not exist.\<close>
  let ?ea = "NotFound ''kubernetesapply not found: a''"
  let ?ma = "fst (reconcileSources noApplyWorld ?m0)"
  have d1: "getTriggerQueueConfigMap noApplyWorld = Inl ?nf" by code_simp
  have d3: "getLiveUpdate noApplyWorld = Inr happyLiveUpdate" by code_simp
  have d6: "ensureSelectorValid noApplyWorld happyLiveUpdate = None" by code_simp
  have "snd (reconcileSources noApplyWorld ?m0) = Inr True" by code_simp
  then have d8: "reconcileSources noApplyWorld ?m0 = (?ma, Inr True)" by (simp add: prod_eq_iff)
  have d9: "Kubernetes (Selector (spec ?ma)) = Some ?k" by code_simp
  have d10: "getKubernetesApply noApplyWorld (ApplyName ?k) = Inl ?ea" by code_simp
  have d11: "objectNotFoundRecorded noApplyWorld happyLiveUpdate ?ea
      = ([DispatchLiveUpdateUpsert happyLiveUpdate,
          StatusWrite (happyLiveUpdate\<lparr>Status := notFoundStatus ''kubernetesapply not found: a''\<rparr>)], None)"
    by code_simp
  note noApply = missing_trigger_queue [where reqName = "''lu''", OF d1 nf d3 l4 l5 d6 l7]
  have w4: "snd (Reconcile noApplyWorld freshReconciler ''lu'')
      = ([DispatchLiveUpdateUpsert happyLiveUpdate,
          StatusWrite (happyLiveUpdate\<lparr>Status := notFoundStatus ''kubernetesapply not found: a''\<rparr>)], None)"
    using noApply [THEN conjunct2, THEN conjunct2, THEN conjunct2, THEN conjunct2, THEN conjunct1,
        rule_format, of ?ma True ?k ?ea] d8 d9 d10 d11
    by simp

  txt \<open>The Kubernetes discovery does not exist.\<close>
  let ?ed = "NotFound ''kubernetesdiscovery not found: d''"
  let ?md = "fst (reconcileSources noDiscoveryWorld ?m0)"
  let ?ka = "\<lparr>ka_ResourceVersion = ''1'', ka_Status = \<lparr>LastApplyStartTime = 20, ResultYAML = []\<rparr>\<rparr>"
  have e1: "getTriggerQueueConfigMap noDiscoveryWorld = Inl ?nf" by code_simp
  have e3: "getLiveUpdate noDiscoveryWorld = Inr happyLiveUpdate" by code_simp
  have e6: "ensureSelectorValid noDiscoveryWorld happyLiveUpdate = None" by code_simp
  have "snd (reconcileSources noDiscoveryWorld ?m0) = Inr True" by code_simp
  then have e8: "reconcileSources noDiscoveryWorld ?m0 = (?md, Inr True)" by (simp add: prod_eq_iff)
  have e9: "Kubernetes (Selector (spec ?md)) = Some ?k" by code_simp
  have e10: "getKubernetesApply noDiscoveryWorld (ApplyName ?k) = Inr ?ka" by code_simp
  have e11: "getKubernetesDiscovery noDiscoveryWorld (DiscoveryName ?k) = Inl ?ed" by code_simp
  have e12: "objectNotFoundRecorded noDiscoveryWorld happyLiveUpdate ?ed
      = ([DispatchLiveUpdateUpsert happyLiveUpdate,
          StatusWrite (happyLiveUpdate\<lparr>Status := notFoundStatus ''kubernetesdiscovery not found: d''\<rparr>)], None)"
    by code_simp
  note noDiscovery = missing_trigger_queue [where reqName = "''lu''", OF e1 nf e3 l4 l5 e6 l7]
  have w5: "snd (Reconcile noDiscoveryWorld freshReconciler ''lu'')
      = ([DispatchLiveUpdateUpsert happyLiveUpdate,
          StatusWrite (happyLiveUpdate\<lparr>Status := notFoundStatus ''kubernetesdiscovery not found: d''\<rparr>)], None)"
    using noDiscovery [THEN conjunct2, THEN conjunct2, THEN conjunct2, THEN conjunct2, THEN conjunct2,
        THEN conjunct1, rule_format, of ?md True ?k ?ka ?ed] e8 e9 e10 e11 e12
    by simp

  txt \<open>The Docker Compose service does not exist.\<close>
  let ?mc = "newMonitor composeLiveUpdate"
  let ?rc = "freshReconciler\<lparr>monitors := AList.update ''lu'' ?mc (monitors freshReconciler)\<rparr>"
  let ?mc1 = "fst (reconcileSources noServiceWorld ?mc)"
  let ?mc2 = "fst (reconcileKubernetesResource noServiceWorld ?mc1)"
  let ?d = "\<lparr>Service = ''svc''\<rparr>"
  let ?es = "NotFound ''dockercomposeservice not found: svc''"
  have f1: "getTriggerQueueConfigMap noServiceWorld = Inl ?nf" by code_simp
  have f3: "getLiveUpdate noServiceWorld = Inr composeLiveUpdate" by code_simp
  have f4: "DeletionTimestamp composeLiveUpdate = None" by code_simp
  have f5: "annotation composeLiveUpdate AnnotationManagedBy = []" by code_simp
  have f6: "ensureSelectorValid noServiceWorld composeLiveUpdate = None" by code_simp
  have f7: "ensureMonitorExists freshReconciler (Name composeLiveUpdate) composeLiveUpdate = (?mc, ?rc)"
    by code_simp
  have "snd (reconcileSources noServiceWorld ?mc) = Inr True" by code_simp
  then have f8: "reconcileSources noServiceWorld ?mc = (?mc1, Inr True)" by (simp add: prod_eq_iff)
  have "snd (reconcileKubernetesResource noServiceWorld ?mc1) = Inr False" by code_simp
  then have f9: "reconcileKubernetesResource noServiceWorld ?mc1 = (?mc2, Inr False)"
    by (simp add: prod_eq_iff)
  have f10: "DockerCompose (Selector (spec ?mc2)) = Some ?d" by code_simp
  have f11: "getDockerComposeService noServiceWorld (Service ?d) = Inl ?es" by code_simp
  have f12: "objectNotFoundRecorded noServiceWorld composeLiveUpdate ?es
      = ([DispatchLiveUpdateUpsert composeLiveUpdate,
          StatusWrite (composeLiveUpdate\<lparr>Status := notFoundStatus ''dockercomposeservice not found: svc''\<rparr>)], None)"
    by code_simp
  note noService = missing_trigger_queue [where reqName = "''lu''", OF f1 nf f3 f4 f5 f6 f7]
  have w6: "snd (Reconcile noServiceWorld freshReconciler ''lu'')
      = ([DispatchLiveUpdateUpsert composeLiveUpdate,
          StatusWrite (composeLiveUpdate\<lparr>Status := notFoundStatus ''dockercomposeservice not found: svc''\<rparr>)], None)"
    using noService [THEN conjunct2, THEN conjunct2, THEN conjunct2, THEN conjunct2, THEN conjunct2,
        THEN conjunct2, THEN conjunct2, rule_format, of ?mc1 True ?mc2 False ?d ?es] f8 f9 f10 f11 f12
    by simp

  from a1 w1 a9 a10 w2 w3 w4 w5 w6 show ?thesis by simp
qed

text \<open>
  The claim as stated fails where it says that the missing ConfigMap is treated as no
  change. The refresh of a monitor that holds no snapshot of the trigger queue reports a
  change and records the empty queue. That change alone makes a reconcile sync: after a
  reconcile that ended with an error of the trigger-queue fetch other than not-found, the
  monitor has recorded the file watch and the Kubernetes objects, so the next reconcile,
  for which the ConfigMap does not exist, gets no change from the other three refreshes,
  and yet updates the container and writes the status.
\<close>

theorem missing_trigger_queue_change_counterexample:
  "getTriggerQueueConfigMap happyWorld = Inl (NotFound ''configmap not found'')
   \<and> lastTriggerQueue (newMonitor happyLiveUpdate) = None
   \<and> reconcileTriggerQueue happyWorld (newMonitor happyLiveUpdate)
       = ((newMonitor happyLiveUpdate)\<lparr>lastTriggerQueue := Some emptyConfigMap\<rparr>, Inr True)
   \<and> snd (Reconcile brokenQueueWorld freshReconciler ''lu'')
       = ([DispatchLiveUpdateUpsert happyLiveUpdate], Some (OtherError ''connection refused''))
   \<and> hasChangesToSync (monitorOf staleReconciler ''lu'') = False
   \<and> reconcileSources happyWorld (monitorOf staleReconciler ''lu'')
       = (monitorOf staleReconciler ''lu'', Inr False)
   \<and> reconcileKubernetesResource happyWorld (monitorOf staleReconciler ''lu'')
       = (monitorOf staleReconciler ''lu'', Inr False)
   \<and> reconcileDockerComposeService happyWorld (monitorOf staleReconciler ''lu'')
       = (monitorOf staleReconciler ''lu'', Inr False)
   \<and> snd (reconcileTriggerQueue happyWorld (monitorOf staleReconciler ''lu'')) = Inr True
   \<and> snd (Reconcile happyWorld staleReconciler ''lu'')
       = ([DispatchLiveUpdateUpsert happyLiveUpdate,
           DispatchBuildStarted ''frontend'' [''/host/src/main.go''],
           CallUpdateContainer (updatedContainer ''P'' ''cid''),
           DispatchBuildComplete ''frontend'' None,
           StatusWrite (happyLiveUpdate\<lparr>Status :=
             \<lparr>st_Failed = None, st_Containers = [syncedStatus ''P'' ''cid'' 50 []]\<rparr>\<rparr>)],
          None)"
  by code_simp

end
